theory Spec2Isabelle
  imports Main "HOL-Library.Word" "HOL-Library.Monad_Syntax"
begin

section \<open>Common types\<close>

text \<open>
  Bytes are 8-bit words.  Row and column numbers, counts and CSI arguments are
  modelled as \<open>int\<close>: the sources compare and clamp them after promotion to
  \<open>int32_t\<close>, and every statement below holds for all integers, hence for
  every value of the 16-bit types the sources declare.
\<close>

type_synonym byte = "8 word"

subsection \<open>Buffer::Damage (common/buffer.hxx)\<close>

text \<open>
  \<^verbatim>\<open>struct Damage { int16_t begin; int16_t end; ... }\<close>: a half-open column
  interval, empty when both ends agree.  The field names carry a prefix because
  the bare names are reserved words of the theory language.
\<close>

record Damage =
  dmg_begin :: int
  dmg_end :: int

text \<open>A failed \<^verbatim>\<open>ASSERT\<close> aborts the call: the result is \<open>None\<close>.\<close>

definition Damage_init :: Damage where
  "Damage_init = \<lparr>dmg_begin = 0, dmg_end = 0\<rparr>"

definition damageSet :: "Damage \<Rightarrow> int \<Rightarrow> int \<Rightarrow> Damage option" where
  "damageSet d begin' end' =
     (if \<not> begin' \<le> end' then None
      else Some (d\<lparr>dmg_begin := begin', dmg_end := end'\<rparr>))"

definition damageAdd :: "Damage \<Rightarrow> int \<Rightarrow> int \<Rightarrow> Damage option" where
  "damageAdd d begin' end' =
     (if \<not> begin' \<le> end' then None
      else if begin' = end' then Some d
      else if dmg_begin d = dmg_end d then damageSet d begin' end'
      else Some (d\<lparr>dmg_begin := min (dmg_begin d) begin',
                    dmg_end := max (dmg_end d) end'\<rparr>))"

definition Damage_reset :: "Damage \<Rightarrow> Damage" where
  "Damage_reset d = Damage_init"

text \<open>The columns a damage value covers.\<close>

definition damaged :: "Damage \<Rightarrow> int set" where
  "damaged d = {dmg_begin d ..< dmg_end d}"

subsection \<open>Config::getSystemColor (common/config.hxx, common/config.cxx)\<close>

datatype Color = RGB byte byte byte

text \<open>The first palette of config.cxx, \<^verbatim>\<open>COLOURS_LINUX[16]\<close>.\<close>

definition COLOURS_LINUX :: "Color list" where
  "COLOURS_LINUX =
     [RGB 0x00 0x00 0x00, RGB 0xA8 0x00 0x00, RGB 0x00 0xA8 0x00, RGB 0xA8 0x57 0x00,
      RGB 0x00 0x00 0xA8, RGB 0xA8 0x00 0xA8, RGB 0x00 0xA8 0xA8, RGB 0xA8 0xA8 0xA8,
      RGB 0x57 0x57 0x57, RGB 0xFF 0x57 0x57, RGB 0x57 0xFF 0x57, RGB 0xFF 0xFF 0x57,
      RGB 0x57 0x57 0xFF, RGB 0xFF 0x57 0xFF, RGB 0x57 0xFF 0xFF, RGB 0xFF 0xFF 0xFF]"

text \<open>
  \<^verbatim>\<open>Color _systemColors[16]\<close> is a list that the configuration keeps at
  sixteen entries; the other members of \<^verbatim>\<open>Config\<close> play no part here.
\<close>

record Config =
  systemColors :: "Color list"

definition config_linux :: Config where
  "config_linux = \<lparr>systemColors = COLOURS_LINUX\<rparr>"

datatype read_error = AssertionFailed | OutOfBounds

text \<open>
  \<^verbatim>\<open>ASSERT(index <= 16, ""); return _systemColors[index];\<close>
  A read past the array is undefined in C++; the model reports it as
  \<open>OutOfBounds\<close> instead of returning an arbitrary colour.
\<close>

definition getSystemColor :: "Config \<Rightarrow> byte \<Rightarrow> read_error + Color" where
  "getSystemColor cfg index =
     (if \<not> index \<le> 16 then Inl AssertionFailed
      else if unat index < length (systemColors cfg)
      then Inr (systemColors cfg ! unat index)
      else Inl OutOfBounds)"

subsection \<open>Tab stops (common/buffer.hxx, common/terminal.cxx)\<close>

definition TAB_SIZE :: nat where
  "TAB_SIZE = 8"

text \<open>
  \<^verbatim>\<open>for (size_t i = 0; i != _tabs.size(); ++i) { _tabs[i] = i % 8 == 0; }\<close>
\<close>

definition resetTabs :: "bool list \<Rightarrow> bool list" where
  "resetTabs tabs = fold (\<lambda>i t. t[i := (i mod 8 = 0)]) [0..<length tabs] tabs"

text \<open>
  The loop that the constructor, \<^verbatim>\<open>resize\<close> and \<^verbatim>\<open>resetAll\<close> of
  \<^verbatim>\<open>Terminal\<close> share:
  \<^verbatim>\<open>for (size_t i = 0; i != _tabs.size(); ++i) { _tabs[i] = (i + 1) % TAB_SIZE == 0; }\<close>
\<close>

definition Terminal_resetTabs :: "bool list \<Rightarrow> bool list" where
  "Terminal_resetTabs tabs =
     fold (\<lambda>i t. t[i := ((i + 1) mod TAB_SIZE = 0)]) [0..<length tabs] tabs"

text \<open>The constructor starts from \<^verbatim>\<open>_tabs(_buffer->getCols())\<close>, all false.\<close>

definition Terminal_initTabs :: "nat \<Rightarrow> bool list" where
  "Terminal_initTabs cols = Terminal_resetTabs (replicate cols False)"

subsection \<open>Regex::matchAllOffsets (support/regex.hxx)\<close>

datatype Substr = Substr (sub_first: int) (sub_last: int)

text \<open>
  \<^verbatim>\<open>pcre_exec\<close> belongs to the PCRE library, not to this repository.  For one
  compiled pattern and one subject text it is a function from the start offset
  to its return value and the output vector it fills, and the model takes it as
  a parameter of that type.
\<close>

type_synonym pcre = "nat \<Rightarrow> int \<times> int list"

text \<open>The conversion \<^verbatim>\<open>int\<close> to \<^verbatim>\<open>size_t\<close> in \<^verbatim>\<open>offset = offsets.front().last\<close>.\<close>

definition size_t :: "int \<Rightarrow> nat" where
  "size_t v = nat (v mod 2 ^ 64)"

text \<open>
  \<^verbatim>\<open>Regex::common\<close>: no substrings when \<^verbatim>\<open>pcre_exec\<close> returns a negative value
  (no match, or an error) or zero (insufficient room), otherwise the first
  \<^verbatim>\<open>rval\<close> pairs of the output vector.
\<close>

definition common :: "pcre \<Rightarrow> nat \<Rightarrow> Substr list" where
  "common exec offset =
     (case exec offset of (rval, offsets) \<Rightarrow>
        if rval < 0 then []
        else if rval = 0 then []
        else map (\<lambda>i. Substr (offsets ! (2 * i)) (offsets ! (2 * i + 1))) [0..<nat rval])"

text \<open>
  The \<^verbatim>\<open>for (;;)\<close> loop of \<^verbatim>\<open>matchAllOffsets\<close>.  It has no bound of its own,
  so it is a partial function: \<open>None\<close> stands for a run that never leaves the
  loop.
\<close>

partial_function (option) matchAllOffsets_loop ::
  "pcre \<Rightarrow> nat \<Rightarrow> nat \<Rightarrow> Substr list list \<Rightarrow> Substr list list option" where
  "matchAllOffsets_loop exec size' offset allOffsets =
     (let offsets = common exec offset in
      if offsets = [] then Some allOffsets
      else let offset' = size_t (sub_last (hd offsets));
               allOffsets' = allOffsets @ [offsets]
           in if offset' = size' then Some allOffsets'
              else matchAllOffsets_loop exec size' offset' allOffsets')"

definition matchAllOffsets :: "pcre \<Rightarrow> nat \<Rightarrow> Substr list list option" where
  "matchAllOffsets exec size' = matchAllOffsets_loop exec size' 0 []"

text \<open>
  What \<^verbatim>\<open>pcre_exec\<close> answers for a pattern that matches the empty string where
  it stands, such as \<^verbatim>\<open>x*\<close> on a text without \<^verbatim>\<open>x\<close>: one match, empty, at the
  start offset.  The vector has \<^verbatim>\<open>_maxMatches * 3 = 30\<close> entries.
\<close>

definition exec_empty :: pcre where
  "exec_empty offset = (1, [int offset, int offset] @ replicate 28 0)"

section \<open>The terminal controller (common/terminal.hxx, common/terminal.cxx)\<close>

subsection \<open>Positions, styles and cells\<close>

type_synonym u16 = "16 word"

text \<open>
  Modelled from the spec: \<^verbatim>\<open>Pos = {row, col}\<close> of data_types.hxx, which is not
  among the sources.  terminal.cxx reads and assigns both fields as
  \<^verbatim>\<open>uint16_t\<close>; the helper methods are coordinate arithmetic in that type.
\<close>

record Pos =
  row :: u16
  col :: u16

definition Pos0 :: Pos where
  "Pos0 = \<lparr>row = 0, col = 0\<rparr>"

definition mkPos :: "int \<Rightarrow> int \<Rightarrow> Pos" where
  "mkPos r c = \<lparr>row = word_of_int r, col = word_of_int c\<rparr>"

definition up :: "int \<Rightarrow> Pos \<Rightarrow> Pos" where
  "up n p = p\<lparr>row := row p - word_of_int n\<rparr>"

definition down :: "int \<Rightarrow> Pos \<Rightarrow> Pos" where
  "down n p = p\<lparr>row := row p + word_of_int n\<rparr>"

definition left :: "int \<Rightarrow> Pos \<Rightarrow> Pos" where
  "left n p = p\<lparr>col := col p - word_of_int n\<rparr>"

definition right :: "int \<Rightarrow> Pos \<Rightarrow> Pos" where
  "right n p = p\<lparr>col := col p + word_of_int n\<rparr>"

definition atRow :: "int \<Rightarrow> Pos \<Rightarrow> Pos" where
  "atRow r p = p\<lparr>row := word_of_int r\<rparr>"

definition atCol :: "int \<Rightarrow> Pos \<Rightarrow> Pos" where
  "atCol c p = p\<lparr>col := word_of_int c\<rparr>"

text \<open>
  Modelled from the spec: \<^verbatim>\<open>clamp\<close> of the support headers, which are not among
  the sources: the value, moved into \<open>[lo, hi]\<close>.
\<close>

definition clamp :: "int \<Rightarrow> int \<Rightarrow> int \<Rightarrow> int" where
  "clamp val lo hi = (if val < lo then lo else if hi < val then hi else val)"

datatype Attr = BOLD | FAINT | ITALIC | UNDERLINE | BLINK | INVERSE | CONCEAL

text \<open>
  Modelled from the spec: a colour is an index into the palette or a direct RGB
  value (section 3); cell.hxx is not among the sources, and the two default
  colours are constants of their own here.
\<close>

datatype UColor = DefaultFg | DefaultBg | Indexed int | Direct int int int

record Style =
  attrs :: "Attr set"
  fg :: UColor
  bg :: UColor

definition Style_normal :: Style where
  "Style_normal = \<lparr>attrs = {}, fg = DefaultFg, bg = DefaultBg\<rparr>"

datatype Cell = Cell (cell_seq: "byte list") (cell_style: Style)

definition SPACE :: byte where "SPACE = 0x20"
definition ESC :: byte where "ESC = 0x1B"
definition NUL :: byte where "NUL = 0x00"
definition ENQ :: byte where "ENQ = 0x05"
definition BEL :: byte where "BEL = 0x07"
definition BS :: byte where "BS = 0x08"
definition HT :: byte where "HT = 0x09"
definition LF :: byte where "LF = 0x0A"
definition VT :: byte where "VT = 0x0B"
definition FF :: byte where "FF = 0x0C"
definition CR :: byte where "CR = 0x0D"
definition SO :: byte where "SO = 0x0E"
definition SI :: byte where "SI = 0x0F"
definition DC1 :: byte where "DC1 = 0x11"
definition DC3 :: byte where "DC3 = 0x13"
definition CAN :: byte where "CAN = 0x18"
definition SUB :: byte where "SUB = 0x1A"

definition Cell_utf8 :: "byte list \<Rightarrow> Style \<Rightarrow> Cell" where
  "Cell_utf8 sq st = Cell sq st"

definition Cell_ascii :: "byte \<Rightarrow> Style \<Rightarrow> Cell" where
  "Cell_ascii c st = Cell [c] st"

definition Cell_blank :: "Style \<Rightarrow> Cell" where
  "Cell_blank st = Cell_ascii SPACE st"

text \<open>The bytes of a string literal, and of an integer printed in decimal.\<close>

definition bytes :: "string \<Rightarrow> byte list" where
  "bytes str = map of_char str"

fun digits :: "nat \<Rightarrow> byte list" where
  "digits n = (if n < 10 then [of_nat (48 + n)]
               else digits (n div 10) @ [of_nat (48 + n mod 10)])"

definition stringify :: "int \<Rightarrow> byte list" where
  "stringify v = (if v < 0 then of_char CHR ''-'' # digits (nat (- v)) else digits (nat v))"

declare digits.simps [simp del]

subsection \<open>Character sets\<close>

datatype CharSub = CS_US | CS_UK | CS_SPECIAL

text \<open>The tables of terminal.cxx, without the closing \<^verbatim>\<open>NUL\<close> entry.\<close>

definition CharSub_table :: "CharSub \<Rightarrow> (byte \<times> byte list) list" where
  "CharSub_table t =
     (case t of
        CS_US \<Rightarrow> []
      | CS_UK \<Rightarrow> [(of_char CHR ''#'', [0xC2, 0xA3])]
      | CS_SPECIAL \<Rightarrow>
          [(of_char CHR 0x60, [0xE2, 0x99, 0xA6]),
           (of_char CHR ''a'', [0xE2, 0x96, 0x92]),
           (of_char CHR ''b'', [0xE2, 0x90, 0x89]),
           (of_char CHR ''c'', [0xE2, 0x90, 0x8C]),
           (of_char CHR ''d'', [0xE2, 0x90, 0x8D]),
           (of_char CHR ''e'', [0xE2, 0x90, 0x8A]),
           (of_char CHR ''f'', [0xC2, 0xB0]),
           (of_char CHR ''g'', [0xC2, 0xB1]),
           (of_char CHR ''h'', [0xE2, 0x90, 0xA4]),
           (of_char CHR ''i'', [0xE2, 0x90, 0x8B]),
           (of_char CHR ''j'', [0xE2, 0x94, 0x98]),
           (of_char CHR ''k'', [0xE2, 0x94, 0x90]),
           (of_char CHR ''l'', [0xE2, 0x94, 0x8C]),
           (of_char CHR ''m'', [0xE2, 0x94, 0x94]),
           (of_char CHR ''n'', [0xE2, 0x94, 0xBC]),
           (of_char CHR ''o'', [0xE2, 0x8E, 0xBA]),
           (of_char CHR ''p'', [0xE2, 0x8E, 0xBB]),
           (of_char CHR ''q'', [0xE2, 0x94, 0x80]),
           (of_char CHR ''r'', [0xE2, 0x8E, 0xBC]),
           (of_char CHR ''s'', [0xE2, 0x8E, 0xBD]),
           (of_char CHR ''t'', [0xE2, 0x94, 0x9C]),
           (of_char CHR ''u'', [0xE2, 0x94, 0xA4]),
           (of_char CHR ''v'', [0xE2, 0x94, 0xB4]),
           (of_char CHR ''w'', [0xE2, 0x94, 0xAC]),
           (of_char CHR ''x'', [0xE2, 0x94, 0x82]),
           (of_char CHR ''y'', [0xE2, 0x89, 0xA4]),
           (of_char CHR ''z'', [0xE2, 0x89, 0xA5]),
           (of_char CHR ''{'', [0xCF, 0x80]),
           (of_char CHR ''|'', [0xE2, 0x89, 0xA0]),
           (of_char CHR ''}'', [0xC2, 0xA3]),
           (of_char CHR ''~'', [0xE2, 0x8B, 0x85])])"

datatype CharSet = G0 | G1

subsection \<open>The state of the controller\<close>

datatype Mode =
    AUTO_WRAP | SHOW_CURSOR | AUTO_REPEAT | ALT_SENDS_ESC | APPKEYPAD | APPCURSOR
  | CR_ON_LF | DELETE_SENDS_DEL | MOUSE_BUTTON | MOUSE_MOTION | MOUSE_SGR
  | BRACKETED_PASTE | REVERSE | INSERT | KBDLOCK | ECHO

datatype Modifier = SHIFT | ALT | CONTROL

datatype Button = LEFT | MIDDLE | RIGHT

datatype ScrollDir = ScrollUP | ScrollDOWN

datatype TabDir = FORWARD | BACKWARD

text \<open>
  \<^verbatim>\<open>struct Cursor\<close> of terminal.hxx.  terminal.cxx assigns \<^verbatim>\<open>&_cursor.g0\<close> or
  \<^verbatim>\<open>&_cursor.g1\<close> to \<^verbatim>\<open>cs\<close>, so \<open>cs\<close> says which of the two is in use.
\<close>

record Cursor =
  cs :: CharSet
  g0 :: CharSub
  g1 :: CharSub
  pos :: Pos
  wrapNext :: bool
  originMode :: bool
  style :: Style

definition Cursor_init :: Cursor where
  "Cursor_init = \<lparr>cs = G0, g0 = CS_US, g1 = CS_US, pos = Pos0, wrapNext = False,
                   originMode = False, style = Style_normal\<rparr>"

text \<open>
  The requests the handlers of terminal.cxx send to the current \<^verbatim>\<open>Buffer\<close>, one
  constructor for each method they call on it.
\<close>

datatype BufferCall =
    DamageCell Pos
  | DamageAll
  | InsertCells Pos int
  | EraseCells Pos int
  | SetCell Pos Cell
  | SetCells Pos int Cell
  | AddLine
  | InsertLines int int
  | EraseLines int int
  | ClearLine int
  | ClearLineLeft Pos
  | ClearLineRight Pos
  | ClearAll
  | ClearAbove int
  | ClearBelow int
  | ScrollUpMargins int
  | ScrollDownMargins int
  | SetMargins int int
  | ResetMargins
  | ResizeBuffer u16 u16 u16

text \<open>
  Modelled from the spec: the \<^verbatim>\<open>Buffer\<close> that terminal.cxx drives is not among
  the sources (buffer.hxx declares a later interface).  Of its state the model
  keeps what the queries \<^verbatim>\<open>getRows\<close>, \<^verbatim>\<open>getCols\<close>, \<^verbatim>\<open>getMarginBegin\<close> and
  \<^verbatim>\<open>getMarginEnd\<close> return, with the margins kept as section 3 states them
  (\<open>0 \<le> margin_begin < margin_end \<le> rows\<close>), and the list of requests received.
  Selection, scroll-back position and rendering are outside the model.
\<close>

record Buffer =
  rows :: u16
  cols :: u16
  marginBegin :: u16
  marginEnd :: u16
  calls :: "BufferCall list"

definition Buffer_init :: "u16 \<Rightarrow> u16 \<Rightarrow> Buffer" where
  "Buffer_init rows' cols' =
     \<lparr>rows = rows', cols = cols', marginBegin = 0, marginEnd = rows', calls = []\<rparr>"

text \<open>\<^verbatim>\<open>resetMargins\<close> as buffer.hxx has it.\<close>

definition resetMargins :: "Buffer \<Rightarrow> Buffer" where
  "resetMargins b = b\<lparr>marginBegin := 0, marginEnd := rows b, calls := calls b @ [ResetMargins]\<rparr>"

text \<open>
  Modelled from the spec: \<^verbatim>\<open>set_margins(begin, end)\<close> requires \<open>end > begin\<close> and
  clamps to \<open>[0, rows]\<close>; otherwise \<^verbatim>\<open>reset_margins\<close> (section 4.4.5).
\<close>

definition setMargins :: "int \<Rightarrow> int \<Rightarrow> Buffer \<Rightarrow> Buffer" where
  "setMargins begin' end' b =
     (if begin' < end'
      then b\<lparr>marginBegin := word_of_int (clamp begin' 0 (uint (rows b))),
             marginEnd := word_of_int (clamp end' 0 (uint (rows b))),
             calls := calls b @ [SetMargins begin' end']\<rparr>
      else resetMargins b)"

text \<open>
  Modelled from the spec: \<^verbatim>\<open>Buffer::resize(rows, cols, cursorRow)\<close> gives the
  buffer its new size; the margins are reset so that they stay within the rows.
  The row adjustment it returns is a parameter of \<open>resize\<close> below.
\<close>

definition Buffer_resize :: "u16 \<Rightarrow> u16 \<Rightarrow> u16 \<Rightarrow> Buffer \<Rightarrow> Buffer" where
  "Buffer_resize rows' cols' cursorRow b =
     b\<lparr>rows := rows', cols := cols', marginBegin := 0, marginEnd := rows',
       calls := calls b @ [ResizeBuffer rows' cols' cursorRow]\<rparr>"

text \<open>
  The pty.  \<^verbatim>\<open>I_Tty::write\<close> is an interface of the repository without an
  implementation among the sources: a call returns the number of bytes taken
  (0 when it would block) or throws \<^verbatim>\<open>I_Tty::Error\<close>.  The model holds the
  answers the pty will give to the coming calls; when they are used up, a call
  would block.  The pty never takes more than it is offered.
\<close>

datatype tty_result = Wrote nat | TtyError

type_synonym tty = "tty_result list"

record Terminal =
  dispatch :: bool
  priBuffer :: Buffer
  altBuffer :: Buffer
  useAlt :: bool
  modes :: "Mode set"
  tabs :: "bool list"
  cursor :: Cursor
  savedCursor :: Cursor
  pressed :: bool
  button :: Button
  pointerPos :: Pos
  tty :: tty
  sent :: "byte list"
  dumpWrites :: bool
  writeBuffer :: "byte list"

text \<open>\<^verbatim>\<open>_buffer\<close> points at the alternative buffer when \<open>useAlt\<close> is set.\<close>

definition buffer :: "Terminal \<Rightarrow> Buffer" where
  "buffer s = (if useAlt s then altBuffer s else priBuffer s)"

definition on_buffer :: "(Buffer \<Rightarrow> Buffer) \<Rightarrow> Terminal \<Rightarrow> Terminal" where
  "on_buffer f s =
     (if useAlt s then s\<lparr>altBuffer := f (altBuffer s)\<rparr> else s\<lparr>priBuffer := f (priBuffer s)\<rparr>)"

definition request :: "BufferCall \<Rightarrow> Terminal \<Rightarrow> Terminal" where
  "request c s = on_buffer (\<lambda>b. b\<lparr>calls := calls b @ [c]\<rparr>) s"

definition getRows :: "Terminal \<Rightarrow> int" where
  "getRows s = uint (rows (buffer s))"

definition getCols :: "Terminal \<Rightarrow> int" where
  "getCols s = uint (cols (buffer s))"

definition getMarginBegin :: "Terminal \<Rightarrow> int" where
  "getMarginBegin s = uint (marginBegin (buffer s))"

definition getMarginEnd :: "Terminal \<Rightarrow> int" where
  "getMarginEnd s = uint (marginEnd (buffer s))"

definition initial_modes :: "Mode set" where
  "initial_modes = {AUTO_WRAP, SHOW_CURSOR, AUTO_REPEAT, ALT_SENDS_ESC}"

text \<open>\<^verbatim>\<open>Terminal::Terminal\<close>, for a pty with the given answers.\<close>

definition Terminal_init :: "u16 \<Rightarrow> u16 \<Rightarrow> tty \<Rightarrow> Terminal" where
  "Terminal_init rows' cols' t =
     \<lparr>dispatch = False,
      priBuffer = Buffer_init rows' cols',
      altBuffer = Buffer_init rows' cols',
      useAlt = False,
      modes = initial_modes,
      tabs = Terminal_initTabs (unat cols'),
      cursor = Cursor_init,
      savedCursor = Cursor_init,
      pressed = False,
      button = LEFT,
      pointerPos = Pos0,
      tty = t,
      sent = [],
      dumpWrites = False,
      writeBuffer = []\<rparr>"

subsection \<open>Writing to the pty\<close>

text \<open>
  The loop of \<^verbatim>\<open>Terminal::write\<close>:
  \<^verbatim>\<open>while (size != 0) { rval = _tty.write(data, size); if (rval == 0) break; data += rval; size -= rval; }\<close>
  The result says whether the loop ended without \<^verbatim>\<open>I_Tty::Error\<close>, which bytes
  are left, what remains of the pty's answers and which bytes the pty took.
\<close>

fun write_loop :: "tty \<Rightarrow> byte list \<Rightarrow> byte list \<Rightarrow> bool \<times> byte list \<times> tty \<times> byte list" where
  "write_loop t [] taken = (True, [], t, taken)"
| "write_loop [] (d # ds) taken = (True, d # ds, [], taken)"
| "write_loop (TtyError # t) (d # ds) taken = (False, d # ds, t, taken)"
| "write_loop (Wrote n # t) (d # ds) taken =
     (let rval = min n (length (d # ds)) in
      if rval = 0 then (True, d # ds, t, taken)
      else write_loop t (drop rval (d # ds)) (taken @ take rval (d # ds)))"

definition Terminal_write :: "byte list \<Rightarrow> Terminal \<Rightarrow> Terminal" where
  "Terminal_write data s =
     (if dumpWrites s then s
      else if writeBuffer s = [] then
        (case write_loop (tty s) data [] of
           (ok, rest, t, taken) \<Rightarrow>
             if ok
             then s\<lparr>tty := t, sent := sent s @ taken, writeBuffer := writeBuffer s @ rest\<rparr>
             else s\<lparr>tty := t, sent := sent s @ taken, dumpWrites := True, writeBuffer := []\<rparr>)
      else s\<lparr>writeBuffer := writeBuffer s @ data\<rparr>)"

definition needsFlush :: "Terminal \<Rightarrow> bool option" where
  "needsFlush s = (if dispatch s then None else Some (writeBuffer s \<noteq> []))"

text \<open>
  The loop of \<^verbatim>\<open>Terminal::flush\<close>:
  \<^verbatim>\<open>do { rval = _tty.write(&front, size); if (rval == 0) break; erase the first rval bytes; } while (!_writeBuffer.empty());\<close>
\<close>

fun flush_loop :: "tty \<Rightarrow> byte list \<Rightarrow> byte list \<Rightarrow> bool \<times> byte list \<times> tty \<times> byte list" where
  "flush_loop [] buf taken = (True, buf, [], taken)"
| "flush_loop (TtyError # t) buf taken = (False, buf, t, taken)"
| "flush_loop (Wrote n # t) buf taken =
     (let rval = min n (length buf) in
      if rval = 0 then (True, buf, t, taken)
      else if drop rval buf \<noteq> [] then flush_loop t (drop rval buf) (taken @ take rval buf)
      else (True, drop rval buf, t, taken @ take rval buf))"

definition flush :: "Terminal \<Rightarrow> Terminal option" where
  "flush s =
     (if dispatch s then None
      else if needsFlush s \<noteq> Some True then None
      else if dumpWrites s then None
      else (case flush_loop (tty s) (writeBuffer s) [] of
              (ok, rest, t, taken) \<Rightarrow>
                if ok
                then Some (s\<lparr>tty := t, sent := sent s @ taken, writeBuffer := rest\<rparr>)
                else Some (s\<lparr>tty := t, sent := sent s @ taken, dumpWrites := True,
                             writeBuffer := []\<rparr>)))"

subsection \<open>Cursor movement\<close>

definition damageCursor :: "Terminal \<Rightarrow> Terminal option" where
  "damageCursor s =
     (if \<not> uint (row (pos (cursor s))) < getRows s then None
      else if \<not> uint (col (pos (cursor s))) < getCols s then None
      else Some (request (DamageCell (pos (cursor s))) s))"

definition moveCursor :: "Pos \<Rightarrow> Terminal \<Rightarrow> Terminal option" where
  "moveCursor p s = do {
     s1 \<leftarrow> damageCursor s;
     let r = (if originMode (cursor s1)
              then clamp (uint (row p)) (getMarginBegin s1) (getMarginEnd s1 - 1)
              else clamp (uint (row p)) 0 (getRows s1 - 1));
     let c = clamp (uint (col p)) 0 (getCols s1 - 1);
     Some (s1\<lparr>cursor := (cursor s1)\<lparr>pos := \<lparr>row = word_of_int r, col = word_of_int c\<rparr>,
                                     wrapNext := False\<rparr>\<rparr>)
   }"

definition moveCursorOriginMode :: "Pos \<Rightarrow> Terminal \<Rightarrow> Terminal option" where
  "moveCursorOriginMode p s =
     moveCursor (down (if originMode (cursor s) then getMarginBegin s else 0) p) s"

text \<open>
  The two loops of \<^verbatim>\<open>tabCursor\<close>, on the \<^verbatim>\<open>uint16_t\<close> column and count.  A read
  of \<^verbatim>\<open>_tabs\<close> past its end aborts.
\<close>

lemma unat_pred_less: "(x :: 'a::len word) \<noteq> 0 \<Longrightarrow> unat (x - 1) < unat x"
  by (simp add: unat_minus_one unat_gt_0)

function tabForward :: "bool list \<Rightarrow> u16 \<Rightarrow> u16 \<Rightarrow> u16 \<Rightarrow> u16 option" where
  "tabForward tabs' cols' c count =
     (if count = 0 then Some c
      else if c + 1 = cols' then Some (c + 1 - 1)
      else if \<not> unat (c + 1) < length tabs' then None
      else tabForward tabs' cols' (c + 1) (if tabs' ! unat (c + 1) then count - 1 else count))"
  by pat_completeness auto
termination
proof (relation "measure (\<lambda>(tabs', cols', c, count). unat (cols' - c - 1))")
  show "wf (measure (\<lambda>(tabs', cols', c, count). unat (cols' - c - 1)))"
    by simp
next
  fix tabs' :: "bool list" and cols' c count :: u16
  assume "c + 1 \<noteq> cols'"
  then have ne: "cols' - c - 1 \<noteq> 0"
    by (metis add.commute diff_add_cancel diff_zero)
  have eq: "cols' - (c + 1) - 1 = (cols' - c - 1) - 1"
    by simp
  have "unat ((cols' - c - 1) - 1) < unat (cols' - c - 1)"
    by (rule unat_pred_less [OF ne])
  then have "unat (cols' - (c + 1) - 1) < unat (cols' - c - 1)"
    by (simp only: eq)
  then show "((tabs', cols', c + 1, if tabs' ! unat (c + 1) then count - 1 else count),
              (tabs', cols', c, count))
             \<in> measure (\<lambda>(tabs', cols', c, count). unat (cols' - c - 1))"
    by simp
qed

function tabBackward :: "bool list \<Rightarrow> u16 \<Rightarrow> u16 \<Rightarrow> u16 option" where
  "tabBackward tabs' c count =
     (if count = 0 then Some c
      else if c = 0 then Some c
      else if \<not> unat (c - 1) < length tabs' then None
      else tabBackward tabs' (c - 1) (if tabs' ! unat (c - 1) then count - 1 else count))"
  by pat_completeness auto
termination
  by (relation "measure (\<lambda>(tabs', c, count). unat c)") (simp_all add: unat_pred_less)

declare tabForward.simps [simp del] tabBackward.simps [simp del]

definition tabCursor :: "TabDir \<Rightarrow> u16 \<Rightarrow> Terminal \<Rightarrow> Terminal option" where
  "tabCursor dir count s = do {
     c \<leftarrow> (case dir of
             FORWARD \<Rightarrow> tabForward (tabs s) (cols (buffer s)) (col (pos (cursor s))) count
           | BACKWARD \<Rightarrow> tabBackward (tabs s) (col (pos (cursor s))) count);
     moveCursor (atCol (uint c) (pos (cursor s))) s
   }"

subsection \<open>Printable characters\<close>

text \<open>
  \<^verbatim>\<open>translate\<close>: the first entry of the table in use whose \<^verbatim>\<open>match\<close> is the byte.
\<close>

definition translate :: "byte \<Rightarrow> Terminal \<Rightarrow> byte list option" where
  "translate ascii s =
     map_of (CharSub_table (case cs (cursor s) of G0 \<Rightarrow> g0 (cursor s) | G1 \<Rightarrow> g1 (cursor s)))
       ascii"

definition machineNormal :: "byte list \<Rightarrow> Terminal \<Rightarrow> Terminal option" where
  "machineNormal sq s = do {
     let sq1 = (if length sq = 1
                then (case translate (hd sq) s of Some r \<Rightarrow> r | None \<Rightarrow> sq)
                else sq);
     s1 \<leftarrow> (if wrapNext (cursor s) \<and> AUTO_WRAP \<in> modes s
            then do {
              s' \<leftarrow> moveCursor (atCol 0 (pos (cursor s))) s;
              if uint (row (pos (cursor s'))) = getMarginEnd s' - 1
              then Some (request AddLine s')
              else moveCursor (down 1 (pos (cursor s'))) s'
            }
            else Some s);
     s2 \<leftarrow> (if \<not> uint (col (pos (cursor s1))) < getCols s1 then None
            else if \<not> uint (row (pos (cursor s1))) < getRows s1 then None
            else Some s1);
     let s3 = (if INSERT \<in> modes s2 then request (InsertCells (pos (cursor s2)) 1) s2 else s2);
     let s4 = request (SetCell (pos (cursor s3)) (Cell_utf8 sq1 (style (cursor s3)))) s3;
     s5 \<leftarrow> (if uint (col (pos (cursor s4))) = getCols s4 - 1
            then Some (s4\<lparr>cursor := (cursor s4)\<lparr>wrapNext := True\<rparr>\<rparr>)
            else moveCursor (right 1 (pos (cursor s4))) s4);
     if \<not> uint (col (pos (cursor s5))) < getCols s5 then None else Some s5
   }"

subsection \<open>Control characters\<close>

definition lineFeed :: "Terminal \<Rightarrow> Terminal option" where
  "lineFeed s =
     (if uint (row (pos (cursor s))) = getMarginEnd s - 1
      then Some (request AddLine s)
      else moveCursor (down 1 (pos (cursor s))) s)"

definition machineControl :: "byte \<Rightarrow> Terminal \<Rightarrow> Terminal option" where
  "machineControl c s =
     (if c = BEL then Some s
      else if c = HT then tabCursor FORWARD 1 s
      else if c = BS then
        (if wrapNext (cursor s) then Some (s\<lparr>cursor := (cursor s)\<lparr>wrapNext := False\<rparr>\<rparr>)
         else if col (pos (cursor s)) = 0 then
           (if AUTO_WRAP \<in> modes s \<and> getMarginBegin s < uint (row (pos (cursor s)))
            then moveCursor (atCol (getCols s - 1) (up 1 (pos (cursor s)))) s
            else Some s)
         else moveCursor (left 1 (pos (cursor s))) s)
      else if c = CR then moveCursor (atCol 0 (pos (cursor s))) s
      else if c = LF then do {
        s1 \<leftarrow> (if CR_ON_LF \<in> modes s then moveCursor (atCol 0 (pos (cursor s))) s else Some s);
        lineFeed s1
      }
      else if c = FF \<or> c = VT then lineFeed s
      else if c = SO then Some (s\<lparr>cursor := (cursor s)\<lparr>cs := G1\<rparr>\<rparr>)
      else if c = SI then Some (s\<lparr>cursor := (cursor s)\<lparr>cs := G0\<rparr>\<rparr>)
      else Some s)"

subsection \<open>Reset, escapes\<close>

definition resetAll :: "Terminal \<Rightarrow> Terminal" where
  "resetAll s =
     (request ClearAll s)\<lparr>modes := initial_modes,
                           tabs := Terminal_resetTabs (tabs s),
                           cursor := Cursor_init,
                           savedCursor := Cursor_init\<rparr>"

definition machineEscape :: "char \<Rightarrow> Terminal \<Rightarrow> Terminal option" where
  "machineEscape c s =
     (if c = CHR ''D'' then lineFeed s
      else if c = CHR ''E'' then do {
        s1 \<leftarrow> moveCursor (mkPos (uint (row (pos (cursor s)))) 0) s;
        lineFeed s1
      }
      else if c = CHR ''H'' then
        (if unat (col (pos (cursor s))) < length (tabs s)
         then Some (s\<lparr>tabs := (tabs s)[unat (col (pos (cursor s))) := True]\<rparr>)
         else None)
      else if c = CHR ''M'' then
        (if uint (row (pos (cursor s))) = getMarginBegin s
         then Some (request (InsertLines (getMarginBegin s) 1) s)
         else moveCursor (up 1 (pos (cursor s))) s)
      else if c = CHR ''c'' then Some (resetAll s)
      else if c = CHR ''='' then Some (s\<lparr>modes := insert APPKEYPAD (modes s)\<rparr>)
      else if c = CHR ''>'' then Some (s\<lparr>modes := modes s - {APPKEYPAD}\<rparr>)
      else if c = CHR ''7'' then Some (s\<lparr>savedCursor := cursor s\<rparr>)
      else if c = CHR ''8'' then do {
        s1 \<leftarrow> damageCursor s;
        Some (s1\<lparr>cursor := savedCursor s1\<rparr>)
      }
      else Some s)"

subsection \<open>Modes\<close>

definition setTo :: "Mode \<Rightarrow> bool \<Rightarrow> Terminal \<Rightarrow> Terminal" where
  "setTo m v s = s\<lparr>modes := (if v then insert m (modes s) else modes s - {m})\<rparr>"

definition saveOrRestore :: "bool \<Rightarrow> Terminal \<Rightarrow> Terminal option" where
  "saveOrRestore set' s = do {
     s1 \<leftarrow> (if set' then Some (s\<lparr>savedCursor := cursor s\<rparr>)
            else do {
              s' \<leftarrow> damageCursor s;
              Some (s'\<lparr>cursor := savedCursor s'\<rparr>)
            });
     Some (request DamageAll s1)
   }"

definition processMode :: "bool \<Rightarrow> bool \<Rightarrow> int \<Rightarrow> Terminal \<Rightarrow> Terminal option" where
  "processMode priv set' a s =
     (if priv then
        (if a = 1 then Some (setTo APPCURSOR set' s)
         else if a = 2 then Some (s\<lparr>cursor := (cursor s)\<lparr>g0 := CS_US, g1 := CS_US, cs := G0\<rparr>\<rparr>)
         else if a = 5 then
           (if (REVERSE \<in> modes s) \<noteq> set'
            then Some (request DamageAll (setTo REVERSE set' s))
            else Some s)
         else if a = 6 then
           moveCursorOriginMode Pos0 (s\<lparr>cursor := (cursor s)\<lparr>originMode := set'\<rparr>\<rparr>)
         else if a = 7 then Some (setTo AUTO_WRAP set' s)
         else if a = 8 then Some (setTo AUTO_REPEAT set' s)
         else if a = 25 then Some (setTo SHOW_CURSOR set' s)
         else if a = 1000 then Some (setTo MOUSE_MOTION False (setTo MOUSE_BUTTON set' s))
         else if a = 1002 then Some (setTo MOUSE_BUTTON False (setTo MOUSE_MOTION set' s))
         else if a = 1006 then Some (setTo MOUSE_SGR set' s)
         else if a = 1037 then Some (setTo DELETE_SENDS_DEL set' s)
         else if a = 1039 then Some (setTo ALT_SENDS_ESC set' s)
         else if a = 1049 \<or> a = 47 \<or> a = 1047 then do {
           let s1 = (if useAlt s then request ClearAll s else s);
           let s2 = s1\<lparr>useAlt := set'\<rparr>;
           if a \<noteq> 1049 then Some (request DamageAll s2) else saveOrRestore set' s2
         }
         else if a = 1048 then saveOrRestore set' s
         else if a = 2004 then Some (setTo BRACKETED_PASTE set' s)
         else Some s)
      else
        (if a = 2 then Some (setTo KBDLOCK set' s)
         else if a = 4 then Some (setTo INSERT set' s)
         else if a = 12 then Some (setTo ECHO set' s)
         else if a = 20 then Some (setTo CR_ON_LF set' s)
         else Some s))"

fun processModes :: "bool \<Rightarrow> bool \<Rightarrow> int list \<Rightarrow> Terminal \<Rightarrow> Terminal option" where
  "processModes priv set' [] s = Some s"
| "processModes priv set' (a # args) s = do {
     s1 \<leftarrow> processMode priv set' a s;
     processModes priv set' args s1
   }"

subsection \<open>Attributes (SGR)\<close>

definition nthArg :: "int list \<Rightarrow> nat \<Rightarrow> int \<Rightarrow> int" where
  "nthArg args n fallback = (if n < length args then args ! n else fallback)"

definition nthArgNonZero :: "int list \<Rightarrow> nat \<Rightarrow> int \<Rightarrow> int" where
  "nthArgNonZero args n fallback =
     (let arg = nthArg args n fallback in if arg \<noteq> 0 then arg else fallback)"

text \<open>
  The arguments that follow 38 or 48 in \<^verbatim>\<open>processAttributes\<close>: the colour they
  select, if any, and the arguments left for the loop.  When arguments are
  missing the source sets \<^verbatim>\<open>i = args.size() - 1\<close>, which ends the loop.
\<close>

definition extendedColor :: "int list \<Rightarrow> UColor option \<times> int list" where
  "extendedColor xs =
     (case xs of
        [] \<Rightarrow> (None, [])
      | k # ys \<Rightarrow>
          if k = 2 then
            (if 3 \<le> length ys then (Some (Direct (ys ! 0) (ys ! 1) (ys ! 2)), drop 3 ys)
             else (None, []))
          else if k = 3 then (if 3 \<le> length ys then (None, drop 3 ys) else (None, []))
          else if k = 4 then (if 4 \<le> length ys then (None, drop 4 ys) else (None, []))
          else if k = 5 then
            (case ys of
               [] \<Rightarrow> (None, [])
             | v2 # zs \<Rightarrow> if 0 \<le> v2 \<and> v2 < 256 then (Some (Indexed v2), zs) else (None, zs))
          else (None, ys))"

lemma extendedColor_length: "length (snd (extendedColor xs)) \<le> length xs"
  by (auto simp add: extendedColor_def split: list.splits)

function processAttributes :: "int list \<Rightarrow> Style \<Rightarrow> Style" where
  "processAttributes [] st = st"
| "processAttributes (v # xs) st =
     (if v = 0 then processAttributes xs Style_normal
      else if v = 1 then processAttributes xs (st\<lparr>attrs := insert BOLD (attrs st)\<rparr>)
      else if v = 2 then processAttributes xs (st\<lparr>attrs := attrs st - {BOLD}\<rparr>)
      else if v = 3 then processAttributes xs (st\<lparr>attrs := insert ITALIC (attrs st)\<rparr>)
      else if v = 4 then processAttributes xs (st\<lparr>attrs := insert UNDERLINE (attrs st)\<rparr>)
      else if v = 5 \<or> v = 6 then processAttributes xs (st\<lparr>attrs := insert BLINK (attrs st)\<rparr>)
      else if v = 7 then processAttributes xs (st\<lparr>attrs := insert INVERSE (attrs st)\<rparr>)
      else if v = 8 then processAttributes xs (st\<lparr>attrs := insert CONCEAL (attrs st)\<rparr>)
      else if v = 21 \<or> v = 22 then processAttributes xs (st\<lparr>attrs := attrs st - {BOLD}\<rparr>)
      else if v = 23 then processAttributes xs (st\<lparr>attrs := attrs st - {ITALIC}\<rparr>)
      else if v = 24 then processAttributes xs (st\<lparr>attrs := attrs st - {UNDERLINE}\<rparr>)
      else if v = 25 then processAttributes xs (st\<lparr>attrs := attrs st - {BLINK}\<rparr>)
      else if v = 26 then processAttributes xs (st\<lparr>attrs := insert INVERSE (attrs st)\<rparr>)
      else if v = 27 then processAttributes xs (st\<lparr>attrs := attrs st - {INVERSE}\<rparr>)
      else if v = 28 then processAttributes xs (st\<lparr>attrs := attrs st - {CONCEAL}\<rparr>)
      else if v = 38 then
        processAttributes (snd (extendedColor xs))
          (case fst (extendedColor xs) of Some u \<Rightarrow> st\<lparr>fg := u\<rparr> | None \<Rightarrow> st)
      else if v = 39 then processAttributes xs (st\<lparr>fg := DefaultFg\<rparr>)
      else if v = 48 then
        processAttributes (snd (extendedColor xs))
          (case fst (extendedColor xs) of Some u \<Rightarrow> st\<lparr>bg := u\<rparr> | None \<Rightarrow> st)
      else if v = 49 then processAttributes xs (st\<lparr>bg := DefaultBg\<rparr>)
      else if 9 \<le> v \<and> v \<le> 20 \<or> v = 29 \<or> 51 \<le> v \<and> v \<le> 55 \<or> v = 99 \<or> v = 109
        then processAttributes xs st
      else if 30 \<le> v \<and> v < 38 then processAttributes xs (st\<lparr>fg := Indexed (v - 30)\<rparr>)
      else if 40 \<le> v \<and> v < 48 then processAttributes xs (st\<lparr>bg := Indexed (v - 40)\<rparr>)
      else if 90 \<le> v \<and> v < 98 then processAttributes xs (st\<lparr>fg := Indexed (v - 90 + 8)\<rparr>)
      else if 100 \<le> v \<and> v < 108 then processAttributes xs (st\<lparr>bg := Indexed (v - 100 + 8)\<rparr>)
      else if 256 \<le> v \<and> v < 512 then processAttributes xs (st\<lparr>fg := Indexed (v - 256)\<rparr>)
      else if 512 \<le> v \<and> v < 768 then processAttributes xs (st\<lparr>bg := Indexed (v - 512)\<rparr>)
      else processAttributes xs st)"
  by pat_completeness auto
termination
  by (relation "measure (\<lambda>(xs, st). length xs)")
     (auto simp add: less_Suc_eq_le extendedColor_length)

subsection \<open>Control sequences\<close>

text \<open>The two answers to a device status report, put at the front of the queue.\<close>

definition deviceStatus :: "Terminal \<Rightarrow> Terminal" where
  "deviceStatus s = s\<lparr>writeBuffer := (ESC # bytes ''[0n'') @ writeBuffer s\<rparr>"

definition cursorReport :: "Terminal \<Rightarrow> Terminal" where
  "cursorReport s =
     (let row' = (if originMode (cursor s)
                  then row (pos (cursor s)) - marginBegin (buffer s)
                  else row (pos (cursor s)));
          col' = col (pos (cursor s));
          str = ESC # bytes ''['' @ stringify (uint row' + 1) @ bytes '';''
                  @ stringify (uint col' + 1) @ bytes ''R''
      in s\<lparr>writeBuffer := str @ writeBuffer s\<rparr>)"

definition setScrollRegion :: "int list \<Rightarrow> Terminal \<Rightarrow> Terminal option" where
  "setScrollRegion args s =
     (if args = [] then moveCursorOriginMode Pos0 (on_buffer resetMargins s)
      else
        (let top = clamp (nthArgNonZero args 0 1 - 1) 0 (getRows s - 1);
             bottom = clamp (nthArgNonZero args 1 (uint (row (pos (cursor s))) + 1) - 1)
                        0 (getRows s - 1)
         in moveCursorOriginMode Pos0
              (if top < bottom then on_buffer (setMargins top (bottom + 1)) s
               else on_buffer resetMargins s)))"

definition machineCsi :: "bool \<Rightarrow> int list \<Rightarrow> char \<Rightarrow> Terminal \<Rightarrow> Terminal option" where
  "machineCsi priv args mode s =
     (let p = pos (cursor s) in
      if mode = CHR ''@'' then
        Some (request (InsertCells p
                (clamp (nthArgNonZero args 0 1) 1 (getCols s - uint (col p)))) s)
      else if mode = CHR ''A'' then moveCursor (up (nthArgNonZero args 0 1) p) s
      else if mode = CHR ''B'' then moveCursor (down (nthArgNonZero args 0 1) p) s
      else if mode = CHR ''C'' then moveCursor (right (nthArgNonZero args 0 1) p) s
      else if mode = CHR ''D'' then moveCursor (left (nthArgNonZero args 0 1) p) s
      else if mode = CHR ''E'' then
        moveCursor (mkPos (uint (row p) + nthArgNonZero args 0 1) 0) s
      else if mode = CHR ''F'' then
        moveCursor (mkPos (uint (row p) - nthArgNonZero args 0 1) 0) s
      else if mode = CHR ''G'' then moveCursor (atCol (nthArgNonZero args 0 1 - 1) p) s
      else if mode = CHR ''f'' \<or> mode = CHR ''H'' then
        moveCursorOriginMode (mkPos (nthArg args 0 1 - 1) (nthArg args 1 1 - 1)) s
      else if mode = CHR ''I'' then tabCursor FORWARD (word_of_int (nthArg args 0 1)) s
      else if mode = CHR ''J'' then
        (if nthArg args 0 0 = 1 then
           Some (request (ClearLineLeft (right 1 p)) (request (ClearAbove (uint (row p))) s))
         else if nthArg args 0 0 = 2 then moveCursor Pos0 (request ClearAll s)
         else Some (request (ClearBelow (uint (row p) + 1)) (request (ClearLineRight p) s)))
      else if mode = CHR ''K'' then
        (if nthArg args 0 0 = 1 then Some (request (ClearLineLeft (right 1 p)) s)
         else if nthArg args 0 0 = 2 then Some (request (ClearLine (uint (row p))) s)
         else Some (request (ClearLineRight p) s))
      else if mode = CHR ''L'' then
        (if getMarginBegin s \<le> uint (row p) \<and> uint (row p) < getMarginEnd s
         then Some (request (InsertLines (uint (row p))
                      (min (nthArgNonZero args 0 1) (getMarginEnd s - uint (row p)))) s)
         else Some s)
      else if mode = CHR ''M'' then
        (if getMarginBegin s \<le> uint (row p) \<and> uint (row p) < getMarginEnd s
         then Some (request (EraseLines (uint (row p))
                      (min (nthArgNonZero args 0 1) (getMarginEnd s - uint (row p)))) s)
         else Some s)
      else if mode = CHR ''P'' then
        Some (request (EraseCells p
                (min (nthArgNonZero args 0 1) (getCols s - uint (col p)))) s)
      else if mode = CHR ''S'' then Some (request (ScrollUpMargins (nthArgNonZero args 0 1)) s)
      else if mode = CHR ''T'' then Some (request (ScrollDownMargins (nthArgNonZero args 0 1)) s)
      else if mode = CHR ''X'' then
        Some (request (SetCells p (nthArgNonZero args 0 1)
                (Cell_ascii SPACE (style (cursor s)))) s)
      else if mode = CHR ''Z'' then
        tabCursor BACKWARD (word_of_int (nthArgNonZero args 0 1)) s
      else if mode = CHR 0x60 then moveCursor (atCol (nthArgNonZero args 0 1 - 1) p) s
      else if mode = CHR ''c'' then Some (Terminal_write (ESC # bytes ''[?6c'') s)
      else if mode = CHR ''d'' then moveCursorOriginMode (atRow (nthArg args 0 1 - 1) p) s
      else if mode = CHR ''g'' then
        (if nthArg args 0 0 = 0 then
           (if unat (col p) < length (tabs s)
            then Some (s\<lparr>tabs := (tabs s)[unat (col p) := False]\<rparr>)
            else None)
         else if nthArg args 0 0 = 3 then Some (s\<lparr>tabs := map (\<lambda>_. False) (tabs s)\<rparr>)
         else Some s)
      else if mode = CHR ''h'' then processModes priv True args s
      else if mode = CHR ''l'' then processModes priv False args s
      else if mode = CHR ''m'' then
        Some (s\<lparr>cursor := (cursor s)\<lparr>style :=
                processAttributes (if args = [] then [0] else args) (style (cursor s))\<rparr>\<rparr>)
      else if mode = CHR ''n'' then
        (if args = [] then Some s
         else if nthArg args 0 0 = 5 then Some (deviceStatus s)
         else if nthArg args 0 0 = 6 then Some (cursorReport s)
         else Some s)
      else if mode = CHR ''r'' then (if priv then Some s else setScrollRegion args s)
      else if mode = CHR ''s'' then
        Some (s\<lparr>savedCursor := (savedCursor s)\<lparr>pos := p\<rparr>\<rparr>)
      else if mode = CHR ''u'' then moveCursor (pos (savedCursor s)) s
      else Some s)"

text \<open>
  \<^verbatim>\<open>machineSpecial\<close>: the screen alignment pattern and the designation of the
  two character sets.
\<close>

definition machineSpecial :: "char \<Rightarrow> char \<Rightarrow> Terminal \<Rightarrow> Terminal option" where
  "machineSpecial special code s =
     (if special = CHR ''#'' then
        (if code = CHR ''8'' then
           Some (fold (\<lambda>r. fold (\<lambda>c. request (SetCell (mkPos (int r) (int c))
                                         (Cell_ascii (of_char CHR ''E'') (style (cursor s)))))
                              [0..<nat (getCols s)])
                   [0..<nat (getRows s)] s)
         else Some s)
      else if special = CHR ''('' then
        (if code = CHR ''0'' then Some (s\<lparr>cursor := (cursor s)\<lparr>g0 := CS_SPECIAL\<rparr>\<rparr>)
         else if code = CHR ''A'' then Some (s\<lparr>cursor := (cursor s)\<lparr>g0 := CS_UK\<rparr>\<rparr>)
         else if code = CHR ''B'' then Some (s\<lparr>cursor := (cursor s)\<lparr>g0 := CS_US\<rparr>\<rparr>)
         else Some s)
      else if special = CHR '')'' then
        (if code = CHR ''0'' then Some (s\<lparr>cursor := (cursor s)\<lparr>g1 := CS_SPECIAL\<rparr>\<rparr>)
         else if code = CHR ''A'' then Some (s\<lparr>cursor := (cursor s)\<lparr>g1 := CS_UK\<rparr>\<rparr>)
         else if code = CHR ''B'' then Some (s\<lparr>cursor := (cursor s)\<lparr>g1 := CS_US\<rparr>\<rparr>)
         else Some s)
      else Some s)"

text \<open>
  The events the VT state machine reports to the controller.  The machine and
  the UTF-8 decoder in front of it are not among the sources; a chunk of pty
  bytes reaches the controller as the list of events they produce.
\<close>

datatype Event =
    Normal "byte list"
  | Control byte
  | Escape char
  | Csi bool "int list" char
  | Dcs "byte list"
  | Osc "string list"
  | Special char char

fun machine :: "Event \<Rightarrow> Terminal \<Rightarrow> Terminal option" where
  "machine (Normal sq) s = machineNormal sq s"
| "machine (Control c) s = machineControl c s"
| "machine (Escape c) s = machineEscape c s"
| "machine (Csi priv args mode) s = machineCsi priv args mode s"
| "machine (Dcs sq) s = Some s"
| "machine (Osc args) s = Some s"
| "machine (Special special code) s = machineSpecial special code s"

subsection \<open>Resizing\<close>

text \<open>
  \<^verbatim>\<open>Terminal::resize\<close>.  The row adjustments that the two calls of
  \<^verbatim>\<open>Buffer::resize\<close> return are the parameters \<open>priAdj\<close> and \<open>altAdj\<close>.
\<close>

definition resize :: "u16 \<Rightarrow> u16 \<Rightarrow> int \<Rightarrow> int \<Rightarrow> Terminal \<Rightarrow> Terminal option" where
  "resize rows' cols' priAdj altAdj s =
     (if \<not> (0 < rows' \<and> 0 < cols') then None
      else
        (let s1 = (if wrapNext (cursor s) \<and> uint (col (pos (cursor s))) \<noteq> uint cols' - 1
                   then s\<lparr>cursor := (cursor s)\<lparr>wrapNext := False\<rparr>\<rparr> else s);
             priCursor = (if useAlt s1 then row (pos (savedCursor s1)) else row (pos (cursor s1)));
             altCursor = (if useAlt s1 then row (pos (cursor s1)) else row (pos (savedCursor s1)));
             s2 = s1\<lparr>priBuffer := Buffer_resize rows' cols' priCursor (priBuffer s1),
                      altBuffer := Buffer_resize rows' cols' altCursor (altBuffer s1)\<rparr>;
             cursorAdj = (if useAlt s2 then altAdj else priAdj);
             savedCursorAdj = (if useAlt s2 then priAdj else altAdj);
             row1 = row (pos (cursor s2)) + word_of_int cursorAdj;
             col1 = word_of_int (clamp (uint (col (pos (cursor s2)))) 0 (uint cols' - 1)) :: u16;
             row2 = (if \<not> row1 < rows' then rows' - 1 else row1);
             s3 = s2\<lparr>cursor := (cursor s2)\<lparr>pos := \<lparr>row = row2, col = col1\<rparr>\<rparr>\<rparr>
         in if \<not> row2 < rows' then None
            else if \<not> col1 < cols' then None
            else
              (let srow = row (pos (savedCursor s3)) + word_of_int savedCursorAdj;
                   scol = word_of_int (clamp (uint col1) 0 (uint cols' - 1)) :: u16;
                   s4 = s3\<lparr>savedCursor := (savedCursor s3)\<lparr>pos := \<lparr>row = srow, col = scol\<rparr>\<rparr>\<rparr>
               in if \<not> srow < rows' then None
                  else if \<not> scol < cols' then None
                  else Some (s4\<lparr>tabs := Terminal_resetTabs
                                   (take (unat cols') (tabs s4)
                                    @ replicate (unat cols' - length (tabs s4)) False)\<rparr>))))"

subsection \<open>Keys, buttons and paste\<close>

definition buttonNum :: "Button \<Rightarrow> int" where
  "buttonNum b = (case b of LEFT \<Rightarrow> 0 | MIDDLE \<Rightarrow> 1 | RIGHT \<Rightarrow> 2)"

text \<open>The report string \<^verbatim>\<open>ost.str()\<close> that \<^verbatim>\<open>buttonPress\<close> builds.\<close>

definition pressReport :: "Mode set \<Rightarrow> Button \<Rightarrow> Modifier set \<Rightarrow> Pos \<Rightarrow> byte list" where
  "pressReport ms b mods p =
     (let num0 = buttonNum b;
          num1 = (if 3 \<le> num0 then num0 + (64 - 3) else num0);
          num2 = (if SHIFT \<in> mods then num1 + 4 else num1);
          num3 = (if ALT \<in> mods then num2 + 8 else num2);
          num = (if CONTROL \<in> mods then num3 + 16 else num3)
      in if MOUSE_SGR \<in> ms then
           ESC # bytes ''[<'' @ stringify num @ bytes '';'' @ stringify (uint (col p) + 1)
             @ bytes '';'' @ stringify (uint (row p) + 1) @ bytes ''M''
         else if uint (row p) < 223 \<and> uint (col p) < 223 then
           ESC # bytes ''[M'' @ [word_of_int (32 + num), word_of_int (32 + uint (col p) + 1),
                                 word_of_int (32 + uint (row p) + 1)]
         else [])"

text \<open>
  \<^verbatim>\<open>buttonPress\<close>.  Without mouse reporting the press goes to the selection
  or to the clipboard, which the model leaves out.
\<close>

definition buttonPress ::
  "Button \<Rightarrow> int \<Rightarrow> Modifier set \<Rightarrow> bool \<Rightarrow> Pos \<Rightarrow> Terminal \<Rightarrow> Terminal option" where
  "buttonPress b count mods within p s =
     (if pressed s then None
      else
        (let s1 = (if MOUSE_BUTTON \<in> modes s
                   then (let str = pressReport (modes s) b mods p
                         in if str \<noteq> [] then Terminal_write str s else s)
                   else s)
         in Some (s1\<lparr>pressed := True, button := b, pointerPos := p\<rparr>)))"

definition motionReport :: "Mode set \<Rightarrow> Button \<Rightarrow> Modifier set \<Rightarrow> Pos \<Rightarrow> byte list" where
  "motionReport ms b mods p =
     (let num0 = buttonNum b + 32;
          num1 = (if SHIFT \<in> mods then num0 + 1 else num0);
          num2 = (if ALT \<in> mods then num1 + 2 else num1);
          num = (if CONTROL \<in> mods then num2 + 4 else num2)
      in if MOUSE_SGR \<in> ms then
           ESC # bytes ''[<'' @ stringify num @ bytes '';'' @ stringify (uint (col p) + 1)
             @ bytes '';'' @ stringify (uint (row p) + 1) @ bytes ''M''
         else if uint (row p) < 223 \<and> uint (col p) < 223 then
           ESC # bytes ''[M'' @ [word_of_int (32 + num), word_of_int (32 + uint (col p) + 1),
                                 word_of_int (32 + uint (row p) + 1)]
         else [])"

definition buttonMotion :: "Modifier set \<Rightarrow> bool \<Rightarrow> Pos \<Rightarrow> Terminal \<Rightarrow> Terminal option" where
  "buttonMotion mods within p s =
     (if \<not> pressed s then None
      else
        (let s1 = (if MOUSE_MOTION \<in> modes s \<and> within
                   then (let str = motionReport (modes s) (button s) mods p
                         in if str \<noteq> [] then Terminal_write str s else s)
                   else s)
         in Some (s1\<lparr>pointerPos := p\<rparr>)))"

definition releaseReport :: "Mode set \<Rightarrow> Button \<Rightarrow> Modifier set \<Rightarrow> Pos \<Rightarrow> byte list" where
  "releaseReport ms b mods p =
     (let num0 = (if MOUSE_SGR \<in> ms then buttonNum b + 32 else 3);
          num1 = (if SHIFT \<in> mods then num0 + 4 else num0);
          num2 = (if ALT \<in> mods then num1 + 8 else num1);
          num = (if CONTROL \<in> mods then num2 + 16 else num2)
      in if MOUSE_SGR \<in> ms then
           ESC # bytes ''[<'' @ stringify num @ bytes '';'' @ stringify (uint (col p) + 1)
             @ bytes '';'' @ stringify (uint (row p) + 1) @ bytes ''m''
         else if uint (row p) < 223 \<and> uint (col p) < 223 then
           ESC # bytes ''[M'' @ [word_of_int (32 + num), word_of_int (32 + uint (col p) + 1),
                                 word_of_int (32 + uint (row p) + 1)]
         else [])"

definition buttonRelease :: "bool \<Rightarrow> Modifier set \<Rightarrow> Terminal \<Rightarrow> Terminal option" where
  "buttonRelease broken mods s =
     (if \<not> pressed s then None
      else
        (let s1 = (if MOUSE_BUTTON \<in> modes s
                   then (let str = releaseReport (modes s) (button s) mods (pointerPos s)
                         in if str \<noteq> [] then Terminal_write str s else s)
                   else s)
         in Some (s1\<lparr>pressed := False\<rparr>)))"

text \<open>
  \<^verbatim>\<open>keyPress\<close>: the key bindings and the key map are not among the sources.  The
  parameter is the string \<^verbatim>\<open>KeyMap::convert\<close> produced, or \<open>None\<close> when a
  binding took the key or the key map gave nothing.
\<close>

definition keyPress :: "byte list option \<Rightarrow> Terminal \<Rightarrow> Terminal" where
  "keyPress str s = (case str of None \<Rightarrow> s | Some bs \<Rightarrow> Terminal_write bs s)"

definition paste :: "byte list \<Rightarrow> Terminal \<Rightarrow> Terminal" where
  "paste data s =
     (let s1 = (if BRACKETED_PASTE \<in> modes s then Terminal_write (ESC # bytes ''[200~'') s else s);
          s2 = Terminal_write data s1
      in if BRACKETED_PASTE \<in> modes s2 then Terminal_write (ESC # bytes ''[201~'') s2 else s2)"

subsection \<open>Reading from the pty\<close>

text \<open>
  While \<^verbatim>\<open>read\<close> dispatches, the observer may call \<^verbatim>\<open>resize\<close> again (the source
  allows it): an item of the chunk is an event of the VT machine or such a
  resize.  After every item \<^verbatim>\<open>processRead\<close> asserts that the cursor is inside the
  buffer.
\<close>

datatype Item = Machine Event | Reenter u16 u16 int int

definition processItem :: "Item \<Rightarrow> Terminal \<Rightarrow> Terminal option" where
  "processItem it s = do {
     s1 \<leftarrow> (case it of
              Machine ev \<Rightarrow> machine ev s
            | Reenter rows' cols' priAdj altAdj \<Rightarrow> resize rows' cols' priAdj altAdj s);
     if \<not> uint (row (pos (cursor s1))) < getRows s1 then None
     else if \<not> uint (col (pos (cursor s1))) < getCols s1 then None
     else Some s1
   }"

fun processRead :: "Item list \<Rightarrow> Terminal \<Rightarrow> Terminal option" where
  "processRead [] s = Some s"
| "processRead (it # items) s = do {
     s1 \<leftarrow> processItem it s;
     processRead items s1
   }"

definition read :: "Item list \<Rightarrow> Terminal \<Rightarrow> Terminal option" where
  "read items s =
     (if dispatch s then None
      else do {
        s1 \<leftarrow> processRead items (s\<lparr>dispatch := True\<rparr>);
        Some (s1\<lparr>dispatch := False\<rparr>)
      })"

subsection \<open>The public operations\<close>

datatype Operation =
    Resize u16 u16 int int
  | Redraw Pos Pos
  | KeyPress "byte list option"
  | ButtonPress Button int "Modifier set" bool Pos
  | ButtonMotion "Modifier set" bool Pos
  | ButtonRelease bool "Modifier set"
  | ScrollWheel ScrollDir "Modifier set"
  | Paste "byte list"
  | Read "Item list"
  | Flush

text \<open>
  \<^verbatim>\<open>redraw\<close> and \<^verbatim>\<open>scrollWheel\<close> render and move the scroll-back view only.
\<close>

fun perform :: "Operation \<Rightarrow> Terminal \<Rightarrow> Terminal option" where
  "perform (Resize rows' cols' priAdj altAdj) s = resize rows' cols' priAdj altAdj s"
| "perform (Redraw b e) s = Some s"
| "perform (KeyPress str) s = Some (keyPress str s)"
| "perform (ButtonPress b count mods within p) s = buttonPress b count mods within p s"
| "perform (ButtonMotion mods within p) s = buttonMotion mods within p s"
| "perform (ButtonRelease broken mods) s = buttonRelease broken mods s"
| "perform (ScrollWheel dir mods) s = Some s"
| "perform (Paste data) s = Some (paste data s)"
| "perform (Read items) s = read items s"
| "perform Flush s = flush s"

fun performs :: "Operation list \<Rightarrow> Terminal \<Rightarrow> Terminal option" where
  "performs [] s = Some s"
| "performs (op # ops) s = do {
     s1 \<leftarrow> perform op s;
     performs ops s1
   }"

subsection \<open>Drawing\<close>

text \<open>
  The call \<^verbatim>\<open>terminalDrawRun(pos, style, str, count)\<close> on the observer; \<open>str\<close> is
  the run without its closing \<^verbatim>\<open>NUL\<close>.
\<close>

datatype DrawRun = DrawRun Pos Style "byte list" int

definition swapColors :: "Style \<Rightarrow> Style" where
  "swapColors st = st\<lparr>fg := bg st, bg := fg st\<rparr>"

text \<open>
  The column loop of \<^verbatim>\<open>Terminal::draw\<close> for row \<open>r\<close>, over the columns still to
  visit.  The state is \<^verbatim>\<open>run\<close>, \<^verbatim>\<open>style\<close> and \<^verbatim>\<open>c_\<close>; \<open>out\<close> collects the calls made.
  \<^verbatim>\<open>Buffer::getCell\<close> is the parameter \<open>getCell\<close>.
\<close>

fun drawColumns ::
  "bool \<Rightarrow> (Pos \<Rightarrow> Cell) \<Rightarrow> nat \<Rightarrow> nat list \<Rightarrow> byte list \<times> Style \<times> nat \<Rightarrow> DrawRun list
     \<Rightarrow> (byte list \<times> Style \<times> nat) \<times> DrawRun list" where
  "drawColumns reverse getCell r [] st out = (st, out)"
| "drawColumns reverse getCell r (c # rest) (run, style', c') out =
     (let cell = getCell (mkPos (int r) (int c)) in
      if run = [] \<or> style' \<noteq> cell_style cell then
        drawColumns reverse getCell r rest
          (cell_seq cell,
           if reverse then swapColors (cell_style cell) else cell_style cell,
           c)
          (if run \<noteq> []
           then out @ [DrawRun (mkPos (int r) (int c')) style' run (int c - int c')]
           else out)
      else drawColumns reverse getCell r rest (run @ cell_seq cell, style', c') out)"

text \<open>One round of the row loop: the columns \<open>[colBegin2, colEnd2)\<close> of row \<open>r\<close>.\<close>

definition drawRow :: "bool \<Rightarrow> (Pos \<Rightarrow> Cell) \<Rightarrow> nat \<Rightarrow> nat \<Rightarrow> nat \<Rightarrow> DrawRun list" where
  "drawRow reverse getCell r colBegin2 colEnd2 =
     (case drawColumns reverse getCell r [colBegin2..<colEnd2] ([], Style_normal, 0) [] of
        ((run, style', c'), out) \<Rightarrow>
          if run \<noteq> []
          then out @ [DrawRun (mkPos (int r) (int c')) style' run (int colEnd2 - int c')]
          else out)"

datatype Damager = TTY | EXPOSURE | SCROLL

text \<open>
  The runs \<^verbatim>\<open>Terminal::draw(begin, end, damage)\<close> sends for the rows from
  \<open>begin.row\<close> up to \<open>end.row\<close>.  \<^verbatim>\<open>Buffer::getDamage\<close> is the parameter
  \<open>getDamage\<close>.  Cursor, selection and scroll bar are drawn by other calls.
\<close>

definition draw ::
  "Mode set \<Rightarrow> (Pos \<Rightarrow> Cell) \<Rightarrow> (nat \<Rightarrow> nat \<times> nat) \<Rightarrow> Pos \<Rightarrow> Pos \<Rightarrow> Damager \<Rightarrow> DrawRun list" where
  "draw ms getCell getDamage begin' end' damage =
     concat (map (\<lambda>r. if damage = TTY
                       then drawRow (REVERSE \<in> ms) getCell r (fst (getDamage r)) (snd (getDamage r))
                       else drawRow (REVERSE \<in> ms) getCell r (unat (col begin')) (unat (col end')))
                 [unat (row begin')..<unat (row end')])"

text \<open>A screen whose first row starts with \<^verbatim>\<open>ab\<close> in the normal style.\<close>

definition screen_ab :: "Pos \<Rightarrow> Cell" where
  "screen_ab p =
     (if p = mkPos 0 0 then Cell_ascii (of_char CHR ''a'') Style_normal
      else if p = mkPos 0 1 then Cell_ascii (of_char CHR ''b'') Style_normal
      else Cell_blank Style_normal)"

subsection \<open>The cells a buffer holds\<close>

text \<open>
  \<^verbatim>\<open>struct ALine\<close> of buffer.hxx: the cells of an active row and the flag that
  says whether the row continues on the next one (the wrap column is left out).
\<close>

record ALine =
  cells :: "Cell list"
  cont :: bool

definition ALine_blank :: "nat \<Rightarrow> Style \<Rightarrow> ALine" where
  "ALine_blank n st = \<lparr>cells = replicate n (Cell_blank st), cont = False\<rparr>"

definition blank_grid :: "nat \<Rightarrow> nat \<Rightarrow> ALine list" where
  "blank_grid rows' cols' = replicate rows' (ALine_blank cols' Style_normal)"

text \<open>
  Modelled from the spec: what the requests do to the active rows.  Placing a
  cell replaces the cell at that position (section 4.4.4), damage changes no
  cell (section 4.4.6).  The other requests (insertion, erasure, scrolling,
  resizing) are not interpreted: a list that holds one has no result here.
\<close>

fun place :: "BufferCall \<Rightarrow> ALine list \<Rightarrow> ALine list option" where
  "place (DamageCell p) g = Some g"
| "place DamageAll g = Some g"
| "place (SetCell p c) g =
     (if unat (row p) < length g \<and> unat (col p) < length (cells (g ! unat (row p)))
      then Some (g[unat (row p) :=
                   (g ! unat (row p))\<lparr>cells := (cells (g ! unat (row p)))[unat (col p) := c]\<rparr>])
      else None)"
| "place other g = None"

fun replay :: "BufferCall list \<Rightarrow> ALine list \<Rightarrow> ALine list option" where
  "replay [] g = Some g"
| "replay (c # rest) g = (case place c g of None \<Rightarrow> None | Some g' \<Rightarrow> replay rest g')"

text \<open>The second scenario of section 8: eighty times \<^verbatim>\<open>A\<close>, then \<^verbatim>\<open>B\<close>.\<close>

definition chars :: "byte list \<Rightarrow> Item list" where
  "chars bs = map (\<lambda>b. Machine (Normal [b])) bs"

definition autoWrapScenario :: "Terminal option" where
  "autoWrapScenario =
     read (chars (replicate 80 (of_char CHR ''A'') @ [of_char CHR ''B'']))
       (Terminal_init 24 80 [])"

subsection \<open>Statements about the queue, the mouse and the wrap\<close>

text \<open>
  The pty raises \<^verbatim>\<open>I_Tty::Error\<close> while it is offered \<open>n\<close> bytes, and after each
  answer the bytes it has not taken yet: the error comes before the pty has
  taken them all and before it would block.
\<close>

fun raises :: "tty \<Rightarrow> nat \<Rightarrow> bool" where
  "raises [] n = False"
| "raises (TtyError # t) n = (0 < n)"
| "raises (Wrote k # t) n = (0 < min k n \<and> raises t (n - min k n))"





text \<open>A controller with the byte \<^verbatim>\<open>x\<close> still waiting in its queue.\<close>

definition queued_x :: Terminal where
  "queued_x = (Terminal_init 24 80 [])\<lparr>writeBuffer := [of_char CHR ''x'']\<rparr>"

text \<open>The button code of a press: the button number plus 4, 8 and 16 for the modifiers.\<close>

definition pressCode :: "Button \<Rightarrow> Modifier set \<Rightarrow> int" where
  "pressCode b mods =
     buttonNum b + (if SHIFT \<in> mods then 4 else 0) + (if ALT \<in> mods then 8 else 0)
       + (if CONTROL \<in> mods then 16 else 0)"

text \<open>A controller with button reporting switched on.\<close>

definition mouse_on :: Terminal where
  "mouse_on = (Terminal_init 24 80 [Wrote 6])\<lparr>modes := insert MOUSE_BUTTON initial_modes\<rparr>"

text \<open>The rows the primary buffer holds after the scenario, by replaying its requests.\<close>

definition autoWrapRows :: "ALine list option" where
  "autoWrapRows =
     Option.bind autoWrapScenario (\<lambda>s. replay (calls (priBuffer s)) (blank_grid 24 80))"

text \<open>The cell that holds one ASCII character in the normal style.\<close>

definition cell_of :: "char \<Rightarrow> Cell" where
  "cell_of c = Cell [of_char c] Style_normal"

subsection \<open>The invariant of the controller\<close>

text \<open>
  A buffer has rows and columns, and its margins satisfy
  \<open>margin_begin < margin_end \<le> rows\<close>.
\<close>

definition geometry_ok :: "Buffer \<Rightarrow> bool" where
  "geometry_ok b =
     (0 < uint (rows b) \<and> 0 < uint (cols b)
      \<and> uint (marginBegin b) < uint (marginEnd b) \<and> uint (marginEnd b) \<le> uint (rows b))"

text \<open>A position lies inside the current buffer.\<close>

definition inside :: "Pos \<Rightarrow> Terminal \<Rightarrow> bool" where
  "inside p s =
     (0 \<le> uint (row p) \<and> uint (row p) < getRows s
      \<and> 0 \<le> uint (col p) \<and> uint (col p) < getCols s)"

text \<open>
  Both buffers are well formed and of one size, there is a tab flag for every
  column, and the cursor and the saved cursor are inside the buffer.
\<close>

definition Inv :: "Terminal \<Rightarrow> bool" where
  "Inv s =
     (geometry_ok (priBuffer s) \<and> geometry_ok (altBuffer s)
      \<and> rows (altBuffer s) = rows (priBuffer s) \<and> cols (altBuffer s) = cols (priBuffer s)
      \<and> length (tabs s) = unat (cols (priBuffer s))
      \<and> inside (pos (cursor s)) s \<and> inside (pos (savedCursor s)) s)"

text \<open>A handler returned, and the invariant holds in the state it returned.\<close>

definition kept :: "Terminal option \<Rightarrow> bool" where
  "kept r = (case r of None \<Rightarrow> False | Some s \<Rightarrow> Inv s)"

subsection \<open>What the callers and the buffers owe the controller\<close>

text \<open>
  \<^verbatim>\<open>resize\<close> asserts at its entry that the new size has rows and columns.  It
  hands the row of the saved cursor to \<^verbatim>\<open>Buffer::resize\<close>, adds the adjustment it
  gets back to that row, and asserts that the row is inside the resized buffer:
  \<^verbatim>\<open>Buffer::resize\<close>, whose code is not among the sources, is to answer with an
  adjustment that moves the row it was given into the buffer it has resized.
  Nothing is asked of the adjustment for the row of the cursor.
\<close>

definition resizable :: "u16 \<Rightarrow> u16 \<Rightarrow> int \<Rightarrow> int \<Rightarrow> Terminal \<Rightarrow> bool" where
  "resizable rows' cols' priAdj altAdj s =
     (0 < rows' \<and> 0 < cols'
      \<and> row (pos (savedCursor s)) + word_of_int (if useAlt s then priAdj else altAdj) < rows')"

text \<open>
  The items of a chunk one after the other: every resize that comes in while
  \<^verbatim>\<open>read\<close> dispatches is as above, in the state in which it comes.  Nothing is
  asked of the events of the VT machine, and nothing of what follows an item
  that does not return.
\<close>

fun item_ok :: "Item \<Rightarrow> Terminal \<Rightarrow> bool" where
  "item_ok (Machine ev) s = True"
| "item_ok (Reenter rows' cols' priAdj altAdj) s = resizable rows' cols' priAdj altAdj s"

fun items_ok :: "Item list \<Rightarrow> Terminal \<Rightarrow> bool" where
  "items_ok [] s = True"
| "items_ok (it # items) s =
     (item_ok it s \<and> (case processItem it s of None \<Rightarrow> True | Some s1 \<Rightarrow> items_ok items s1))"

text \<open>
  The assertions at the entry of the public operations, which are the caller's
  to keep: a button is pressed only when none is down (\<^verbatim>\<open>ASSERT(!_pressed)\<close>),
  moved and released only when one is down (\<^verbatim>\<open>ASSERT(_pressed)\<close>), and \<^verbatim>\<open>flush\<close> is
  called only with writes queued and not in the drop-writes state
  (\<^verbatim>\<open>ASSERT(needsFlush())\<close>, \<^verbatim>\<open>ASSERT(!_dumpWrites)\<close>).  None of them mentions the
  cursor.
\<close>

fun op_ok :: "Operation \<Rightarrow> Terminal \<Rightarrow> bool" where
  "op_ok (Resize rows' cols' priAdj altAdj) s = resizable rows' cols' priAdj altAdj s"
| "op_ok (Redraw b e) s = True"
| "op_ok (KeyPress str) s = True"
| "op_ok (ButtonPress b count mods within p) s = (\<not> pressed s)"
| "op_ok (ButtonMotion mods within p) s = pressed s"
| "op_ok (ButtonRelease broken mods) s = pressed s"
| "op_ok (ScrollWheel dir mods) s = True"
| "op_ok (Paste data) s = True"
| "op_ok (Read items) s = items_ok items (s\<lparr>dispatch := True\<rparr>)"
| "op_ok Flush s = (writeBuffer s \<noteq> [] \<and> \<not> dumpWrites s)"

fun ops_ok :: "Operation list \<Rightarrow> Terminal \<Rightarrow> bool" where
  "ops_ok [] s = True"
| "ops_ok (op # ops) s =
     (op_ok op s \<and> (case perform op s of None \<Rightarrow> True | Some s1 \<Rightarrow> ops_ok ops s1))"


section \<open>Damage accumulation\<close>

lemma damageAdd_cases:
  assumes "b \<le> e"
  shows "damageAdd d b e =
           Some (if b = e then d
                 else if dmg_begin d = dmg_end d then d\<lparr>dmg_begin := b, dmg_end := e\<rparr>
                 else d\<lparr>dmg_begin := min (dmg_begin d) b, dmg_end := max (dmg_end d) e\<rparr>)"
  using assms by (simp add: damageAdd_def damageSet_def)

text \<open>
  Claim C7.  For a damage value with \<open>begin \<le> end\<close> and a call \<open>damageAdd(b, e)\<close> with
  \<open>b \<le> e\<close> the call succeeds, the result still has \<open>begin \<le> end\<close>, it covers
  the columns \<open>[b, e)\<close>, it covers the prior interval when that was non-empty
  (so both of its ends only move outwards), and an empty addition leaves the
  damage as it was.
\<close>

theorem damageAdd_widens:
  assumes "dmg_begin d \<le> dmg_end d" and "b \<le> e"
  shows "\<exists>d'. damageAdd d b e = Some d'
           \<and> dmg_begin d' \<le> dmg_end d'
           \<and> {b ..< e} \<subseteq> damaged d'
           \<and> (b < e \<longrightarrow> dmg_begin d' \<le> b \<and> e \<le> dmg_end d')
           \<and> (dmg_begin d < dmg_end d \<longrightarrow>
                 damaged d \<subseteq> damaged d' \<and> dmg_begin d' \<le> dmg_begin d \<and> dmg_end d \<le> dmg_end d')
           \<and> (b = e \<longrightarrow> d' = d)"
proof (cases "b = e")
  case True
  then show ?thesis
    using assms by (simp add: damageAdd_cases damaged_def)
next
  case False
  with assms have lt: "b < e" by simp
  show ?thesis
  proof (cases "dmg_begin d = dmg_end d")
    case True
    with lt assms show ?thesis
      by (simp add: damageAdd_cases damaged_def)
  next
    case False
    with lt assms show ?thesis
      by (auto simp add: damageAdd_cases damaged_def)
  qed
qed

theorem damageAdd_widens_witness:
  "damageAdd \<lparr>dmg_begin = 2, dmg_end = 5\<rparr> 4 9 = Some \<lparr>dmg_begin = 2, dmg_end = 9\<rparr>
   \<and> damaged \<lparr>dmg_begin = 2, dmg_end = 5\<rparr> \<subseteq> damaged \<lparr>dmg_begin = 2, dmg_end = 9\<rparr>"
  using damageAdd_widens [of "\<lparr>dmg_begin = 2, dmg_end = 5\<rparr>" 4 9]
  by (auto simp add: damageAdd_def damageSet_def damaged_def)

section \<open>The system palette guard\<close>

lemma getSystemColor_in_range:
  "index < 16 \<Longrightarrow> length (systemColors cfg) = 16 \<Longrightarrow>
     getSystemColor cfg index = Inr (systemColors cfg ! unat index)"
  by (simp add: getSystemColor_def word_less_nat_alt word_le_nat_alt)

text \<open>
  Claim C10.  The guard \<^verbatim>\<open>ASSERT(index <= 16)\<close> lets the index 16 through, and the
  read \<^verbatim>\<open>_systemColors[16]\<close> is one past the last of the sixteen entries.
\<close>

theorem getSystemColor_16_out_of_bounds:
  "length (systemColors config_linux) = 16
   \<and> (16 :: byte) \<le> 16
   \<and> getSystemColor config_linux 16 = Inl OutOfBounds"
  by (simp add: getSystemColor_def config_linux_def COLOURS_LINUX_def)

section \<open>Tab-stop layouts\<close>

lemma fold_update_upt:
  "n \<le> length xs \<Longrightarrow>
     fold (\<lambda>i t. t[i := f i]) [0..<n] xs = map f [0..<n] @ drop n xs"
proof (induction n)
  case 0
  then show ?case by simp
next
  case (Suc n)
  then have "fold (\<lambda>i t. t[i := f i]) [0..<Suc n] xs
               = (map f [0..<n] @ drop n xs)[n := f n]"
    by simp
  also have "\<dots> = map f [0..<n] @ (drop n xs)[0 := f n]"
    by (simp add: list_update_append)
  also have "(drop n xs)[0 := f n] = f n # drop (Suc n) xs"
    using Suc.prems by (simp add: Cons_nth_drop_Suc [symmetric])
  finally show ?case by simp
qed

lemma resetTabs_map:
  "resetTabs ts = map (\<lambda>i. i mod 8 = 0) [0..<length ts]"
  by (simp add: resetTabs_def fold_update_upt)

lemma Terminal_resetTabs_map:
  "Terminal_resetTabs ts = map (\<lambda>i. (i + 1) mod 8 = 0) [0..<length ts]"
  by (simp add: Terminal_resetTabs_def TAB_SIZE_def fold_update_upt)

lemma tab_layouts_differ:
  "ts \<noteq> [] \<Longrightarrow> resetTabs ts \<noteq> Terminal_resetTabs ts"
proof
  assume ne: "ts \<noteq> []" and eq: "resetTabs ts = Terminal_resetTabs ts"
  from ne have len: "0 < length ts" by simp
  from eq have "resetTabs ts ! 0 = Terminal_resetTabs ts ! 0" by simp
  with len show False
    by (simp add: resetTabs_map Terminal_resetTabs_map)
qed

text \<open>
  Claim C6.  On eight columns \<^verbatim>\<open>Buffer::resetTabs\<close> puts the only stop at column 0
  and the loop of \<^verbatim>\<open>Terminal\<close> puts it at column 7: the two layouts are not
  the same.
\<close>

theorem resetTabs_8_columns:
  "resetTabs (replicate 8 False)
     = [True, False, False, False, False, False, False, False]
   \<and> Terminal_resetTabs (replicate 8 False)
     = [False, False, False, False, False, False, False, True]
   \<and> Terminal_initTabs 8 \<noteq> resetTabs (replicate 8 False)"
  by (simp add: resetTabs_map Terminal_resetTabs_map Terminal_initTabs_def upt_rec)

section \<open>The scanning loop of matchAllOffsets\<close>

lemma common_exec_empty:
  "common exec_empty offset = [Substr (int offset) (int offset)]"
  by (simp add: common_def exec_empty_def)

lemma size_t_small: "n < 2 ^ 64 \<Longrightarrow> size_t (int n) = n"
  by (simp add: size_t_def nat_mod_distrib nat_power_eq)

text \<open>
  With an empty match at every offset the loop never returns before the end of
  the text: each round starts again at the offset it started from.
\<close>

lemma matchAllOffsets_loop_stuck:
  assumes "matchAllOffsets_loop exec size' offset acc = Some r"
  shows "\<not> (exec = exec_empty \<and> offset < size' \<and> size' < 2 ^ 64)"
proof (rule matchAllOffsets_loop.raw_induct
    [where P = "\<lambda>exec size' offset acc r.
                  \<not> (exec = exec_empty \<and> offset < size' \<and> size' < 2 ^ 64)",
     OF _ assms])
  fix loop :: "pcre \<Rightarrow> nat \<Rightarrow> nat \<Rightarrow> Substr list list \<Rightarrow> Substr list list option"
    and exec size' offset acc r
  assume IH: "\<And>exec size' offset acc r. loop exec size' offset acc = Some r \<Longrightarrow>
                \<not> (exec = exec_empty \<and> offset < size' \<and> size' < 2 ^ 64)"
    and step: "(let offsets = common exec offset in
      if offsets = [] then Some acc
      else let offset' = size_t (sub_last (hd offsets));
               allOffsets' = acc @ [offsets]
           in if offset' = size' then Some allOffsets'
              else loop exec size' offset' allOffsets') = Some r"
  show "\<not> (exec = exec_empty \<and> offset < size' \<and> size' < 2 ^ 64)"
  proof
    assume a: "exec = exec_empty \<and> offset < size' \<and> size' < 2 ^ 64"
    then have off: "size_t (int offset) = offset"
      by (simp add: size_t_small)
    from step a off
    have "loop exec_empty size' offset (acc @ [[Substr (int offset) (int offset)]]) = Some r"
      by (simp add: common_exec_empty)
    with IH a show False by blast
  qed
qed

text \<open>
  Claim C9.  On a text of one byte and a pattern whose match at offset 0 is empty,
  \<^verbatim>\<open>matchAllOffsets\<close> does not return: the scan offset stays at 0.
\<close>

theorem matchAllOffsets_empty_match_diverges:
  "matchAllOffsets exec_empty 1 = None"
proof (cases "matchAllOffsets exec_empty 1")
  case None
  then show ?thesis .
next
  case (Some r)
  then show ?thesis
    using matchAllOffsets_loop_stuck [of exec_empty 1 0 "[]" r]
    by (simp add: matchAllOffsets_def)
qed

section \<open>The outbound queue\<close>

lemma raises_0 [simp]: "\<not> raises t 0"
proof (cases t)
  case (Cons a t')
  then show ?thesis by (cases a) simp_all
qed simp









section \<open>Device status reports\<close>

text \<open>
  Claim C3.  With \<^verbatim>\<open>x\<close> waiting in the queue, the status report (\<^verbatim>\<open>CSI 5 n\<close>) followed
  by the cursor position report (\<^verbatim>\<open>CSI 6 n\<close>) leaves the queue holding the
  second answer, then the first, then \<^verbatim>\<open>x\<close>; a flush sends them in that order.
\<close>

theorem status_reports_jump_queue:
  "map_option writeBuffer
     (read [Machine (Csi False [5] CHR ''n''), Machine (Csi False [6] CHR ''n'')] queued_x)
   = Some (ESC # bytes ''[1;1R'' @ ESC # bytes ''[0n'' @ bytes ''x'')"
  by (simp add: read_def processItem_def machineCsi_def nthArg_def deviceStatus_def
      cursorReport_def queued_x_def Terminal_init_def Cursor_init_def Pos0_def
      Buffer_init_def getRows_def getCols_def buffer_def stringify_def digits.simps
      bytes_def ESC_def)

lemma primary_DA_appends:
  "writeBuffer s \<noteq> [] \<Longrightarrow> \<not> dumpWrites s \<Longrightarrow>
     map_option writeBuffer (machineCsi priv args CHR ''c'' s)
       = Some (writeBuffer s @ ESC # bytes ''[?6c'')"
  by (simp add: machineCsi_def Terminal_write_def)

section \<open>Mouse reports\<close>

lemma pressCode_range: "0 \<le> pressCode b mods \<and> pressCode b mods \<le> 30"
  by (cases b) (simp_all add: pressCode_def buttonNum_def)

lemma pressReport_legacy:
  assumes "MOUSE_SGR \<notin> ms"
  shows "pressReport ms b mods p =
           (if uint (col p) + 1 \<le> 223 \<and> uint (row p) + 1 \<le> 223
            then [0x1B, 0x5B, 0x4D, word_of_int (32 + pressCode b mods),
                  word_of_int (32 + (uint (col p) + 1)), word_of_int (32 + (uint (row p) + 1))]
            else [])"
  using assms
  by (cases b) (auto simp add: pressReport_def pressCode_def buttonNum_def ESC_def bytes_def
      Let_def add.assoc)

lemma byte_of_small: "0 \<le> v \<Longrightarrow> v \<le> 255 \<Longrightarrow> uint (word_of_int v :: byte) = v"
  by (simp add: uint_word_of_int)

text \<open>
  Claim C4.  With \<^verbatim>\<open>MOUSE_BUTTON\<close> on and \<^verbatim>\<open>MOUSE_SGR\<close> off, a press at \<open>p\<close> with
  \<open>x = col + 1\<close> and \<open>y = row + 1\<close> hands \<^verbatim>\<open>write\<close> the six bytes \<^verbatim>\<open>ESC [ M\<close>,
  \<open>32 + code\<close>, \<open>32 + x\<close>, \<open>32 + y\<close> (none of them truncated) when \<open>x \<le> 223\<close> and
  \<open>y \<le> 223\<close>; otherwise the report is empty, \<^verbatim>\<open>write\<close> is not called, and pty,
  queue and drop-writes flag stay as they were.
\<close>

theorem legacy_press_report:
  assumes "MOUSE_BUTTON \<in> modes s" and "MOUSE_SGR \<notin> modes s" and "\<not> pressed s"
  shows "(uint (col p) + 1 \<le> 223 \<and> uint (row p) + 1 \<le> 223 \<longrightarrow>
            pressReport (modes s) b mods p
              = [0x1B, 0x5B, 0x4D, word_of_int (32 + pressCode b mods),
                 word_of_int (32 + (uint (col p) + 1)), word_of_int (32 + (uint (row p) + 1))]
            \<and> uint (word_of_int (32 + pressCode b mods) :: byte) = 32 + pressCode b mods
            \<and> uint (word_of_int (32 + (uint (col p) + 1)) :: byte) = 32 + (uint (col p) + 1)
            \<and> uint (word_of_int (32 + (uint (row p) + 1)) :: byte) = 32 + (uint (row p) + 1)
            \<and> buttonPress b count mods within p s
                = Some ((Terminal_write (pressReport (modes s) b mods p) s)
                          \<lparr>pressed := True, button := b, pointerPos := p\<rparr>))
         \<and> (\<not> (uint (col p) + 1 \<le> 223 \<and> uint (row p) + 1 \<le> 223) \<longrightarrow>
            pressReport (modes s) b mods p = []
            \<and> buttonPress b count mods within p s
                = Some (s\<lparr>pressed := True, button := b, pointerPos := p\<rparr>))
         \<and> (pressReport (modes s) b mods p \<noteq> [] \<longleftrightarrow>
              uint (col p) + 1 \<le> 223 \<and> uint (row p) + 1 \<le> 223)"
proof -
  note rep = pressReport_legacy [OF assms(2), of b mods p]
  have code: "0 \<le> pressCode b mods \<and> pressCode b mods \<le> 30"
    by (rule pressCode_range)
  have nonneg: "0 \<le> uint (col p) \<and> 0 \<le> uint (row p)"
    by simp
  show ?thesis
  proof (cases "uint (col p) + 1 \<le> 223 \<and> uint (row p) + 1 \<le> 223")
    case True
    have b1: "uint (word_of_int (32 + pressCode b mods) :: byte) = 32 + pressCode b mods"
      by (rule byte_of_small) (use code in linarith)+
    have b2: "uint (word_of_int (32 + (uint (col p) + 1)) :: byte) = 32 + (uint (col p) + 1)"
      by (rule byte_of_small) (use True nonneg in linarith)+
    have b3: "uint (word_of_int (32 + (uint (row p) + 1)) :: byte) = 32 + (uint (row p) + 1)"
      by (rule byte_of_small) (use True nonneg in linarith)+
    from True rep have full: "pressReport (modes s) b mods p
              = [0x1B, 0x5B, 0x4D, word_of_int (32 + pressCode b mods),
                 word_of_int (32 + (uint (col p) + 1)), word_of_int (32 + (uint (row p) + 1))]"
      by (simp only: if_True simp_thms)
    then have ne: "pressReport (modes s) b mods p \<noteq> []"
      by (simp only: list.distinct not_False_eq_True)
    from ne assms have press: "buttonPress b count mods within p s
                = Some ((Terminal_write (pressReport (modes s) b mods p) s)
                          \<lparr>pressed := True, button := b, pointerPos := p\<rparr>)"
      by (simp add: buttonPress_def)
    from True b1 b2 b3 full ne press show ?thesis
      by blast
  next
    case False
    with rep have empty: "pressReport (modes s) b mods p = []"
      by (simp only: if_False)
    with assms have press: "buttonPress b count mods within p s
                = Some (s\<lparr>pressed := True, button := b, pointerPos := p\<rparr>)"
      by (simp add: buttonPress_def)
    from False empty press show ?thesis
      by blast
  qed
qed

theorem legacy_press_report_witness:
  "map_option sent (buttonPress LEFT 1 {} True \<lparr>row = 4, col = 9\<rparr> mouse_on)
     = Some [0x1B, 0x5B, 0x4D, 32, 42, 37]
   \<and> map_option sent (buttonPress LEFT 1 {} True \<lparr>row = 4, col = 223\<rparr> mouse_on) = Some []"
proof -
  have m: "MOUSE_BUTTON \<in> modes mouse_on" "MOUSE_SGR \<notin> modes mouse_on" "\<not> pressed mouse_on"
    by (simp_all add: mouse_on_def Terminal_init_def initial_modes_def)
  have a: "map_option sent (buttonPress LEFT 1 {} True \<lparr>row = 4, col = 9\<rparr> mouse_on)
             = Some [0x1B, 0x5B, 0x4D, 32, 42, 37]"
    using legacy_press_report [OF m, of "\<lparr>row = 4, col = 9\<rparr>" LEFT "{}" 1 True]
    by (simp add: pressCode_def buttonNum_def Terminal_write_def mouse_on_def Terminal_init_def)
  have b: "map_option sent (buttonPress LEFT 1 {} True \<lparr>row = 4, col = 223\<rparr> mouse_on) = Some []"
    using legacy_press_report [OF m, of "\<lparr>row = 4, col = 223\<rparr>" LEFT "{}" 1 True]
    by (simp add: mouse_on_def Terminal_init_def)
  from a b show ?thesis by simp
qed

section \<open>Auto-wrap\<close>

text \<open>
  Claim C2, as the code has it.  After eighty \<^verbatim>\<open>A\<close> the cursor is still on row 0, in
  the last column, with \<^verbatim>\<open>wrapNext\<close> set; the \<^verbatim>\<open>B\<close> that follows is placed at
  \<open>(1, 0)\<close> and leaves the cursor at \<open>(1, 1)\<close>; row 0 holds \<^verbatim>\<open>A\<close> in all eighty
  cells.
\<close>

theorem auto_wrap_cells_and_cursor:
  "map_option (\<lambda>s. (pos (cursor s), wrapNext (cursor s)))
     (read (chars (replicate 80 (of_char CHR ''A''))) (Terminal_init 24 80 []))
     = Some (\<lparr>row = 0, col = 79\<rparr>, True)
   \<and> map_option (\<lambda>s. (pos (cursor s), wrapNext (cursor s))) autoWrapScenario
     = Some (\<lparr>row = 1, col = 1\<rparr>, False)
   \<and> map_option (\<lambda>g. (cells (g ! 0), cells (g ! 1) ! 0)) autoWrapRows
     = Some (replicate 80 (cell_of CHR ''A''), cell_of CHR ''B'')"
  by code_simp

text \<open>
  Row 0 is not marked as continuing on row 1: no request of \<^verbatim>\<open>machineNormal\<close>
  tells the buffer that the line wrapped.
\<close>

theorem auto_wrap_not_marked:
  "map_option (\<lambda>g. cont (g ! 0)) autoWrapRows = Some False"
  by code_simp

text \<open>
  The buffer receives the same requests when the application moves to the next
  line itself (\<^verbatim>\<open>CR\<close>, \<^verbatim>\<open>LF\<close>) after the eighty \<^verbatim>\<open>A\<close>.
\<close>

lemma auto_wrap_requests_as_CR_LF:
  "map_option (\<lambda>s. calls (priBuffer s)) autoWrapScenario
   = map_option (\<lambda>s. calls (priBuffer s))
       (read (chars (replicate 80 (of_char CHR ''A''))
              @ [Machine (Control CR), Machine (Control LF), Machine (Normal [of_char CHR ''B''])])
          (Terminal_init 24 80 []))"
  by code_simp

section \<open>Runs of equal style\<close>

text \<open>
  Claim C5.  In \<^verbatim>\<open>REVERSE\<close> mode the two neighbouring cells \<^verbatim>\<open>a\<close> and \<^verbatim>\<open>b\<close> of equal
  style are sent as two runs of one cell each; without \<^verbatim>\<open>REVERSE\<close> they are
  one run of two cells.
\<close>

theorem reverse_mode_splits_runs:
  "cell_style (screen_ab (mkPos 0 0)) = cell_style (screen_ab (mkPos 0 1))
   \<and> draw {REVERSE} screen_ab (\<lambda>r. (0, 0)) (mkPos 0 0) (mkPos 1 2) EXPOSURE
     = [DrawRun (mkPos 0 0) (swapColors Style_normal) [of_char CHR ''a''] 1,
        DrawRun (mkPos 0 1) (swapColors Style_normal) [of_char CHR ''b''] 1]
   \<and> draw {} screen_ab (\<lambda>r. (0, 0)) (mkPos 0 0) (mkPos 1 2) EXPOSURE
     = [DrawRun (mkPos 0 0) Style_normal [of_char CHR ''a'', of_char CHR ''b''] 2]"
  by code_simp

text \<open>Without \<^verbatim>\<open>REVERSE\<close>, cells of one style extend the run that is open.\<close>

lemma drawColumns_same_style:
  assumes "\<forall>c \<in> set columns. cell_style (getCell (mkPos (int r) (int c))) = st"
    and "run \<noteq> []"
  shows "drawColumns False getCell r columns (run, st, c0) out
           = ((run @ concat (map (\<lambda>c. cell_seq (getCell (mkPos (int r) (int c)))) columns),
               st, c0), out)"
  using assms
  by (induction columns arbitrary: run) simp_all

section \<open>Cursor containment\<close>

lemmas Inv_defs =
  Inv_def inside_def geometry_ok_def getRows_def getCols_def getMarginBegin_def
  getMarginEnd_def buffer_def

lemma kept_Some [simp]: "kept (Some s) = Inv s"
  by (simp add: kept_def)

lemma kept_None [simp]: "\<not> kept None"
  by (simp add: kept_def)

lemma kept_bind:
  "kept m \<Longrightarrow> (\<And>s'. Inv s' \<Longrightarrow> kept (f s')) \<Longrightarrow> kept (Option.bind m f)"
  by (cases m) simp_all

lemma keptD: "kept r \<Longrightarrow> r = Some s \<Longrightarrow> Inv s"
  by simp

lemma keptE: "kept r \<Longrightarrow> \<exists>s. r = Some s \<and> Inv s"
  by (cases r) simp_all

lemma request_fields [simp]:
  "cursor (request c s) = cursor s"
  "savedCursor (request c s) = savedCursor s"
  "tabs (request c s) = tabs s"
  "modes (request c s) = modes s"
  "useAlt (request c s) = useAlt s"
  "getRows (request c s) = getRows s"
  "getCols (request c s) = getCols s"
  "getMarginBegin (request c s) = getMarginBegin s"
  "getMarginEnd (request c s) = getMarginEnd s"
  by (simp_all add: request_def on_buffer_def Inv_defs)

lemma Inv_request [simp]: "Inv (request c s) = Inv s"
  by (simp add: request_def on_buffer_def Inv_defs)

lemma getters_update [simp]:
  "getRows (s\<lparr>cursor := v0\<rparr>) = getRows s"
  "getCols (s\<lparr>cursor := v0\<rparr>) = getCols s"
  "getMarginBegin (s\<lparr>cursor := v0\<rparr>) = getMarginBegin s"
  "getMarginEnd (s\<lparr>cursor := v0\<rparr>) = getMarginEnd s"
  "getRows (s\<lparr>savedCursor := v1\<rparr>) = getRows s"
  "getCols (s\<lparr>savedCursor := v1\<rparr>) = getCols s"
  "getMarginBegin (s\<lparr>savedCursor := v1\<rparr>) = getMarginBegin s"
  "getMarginEnd (s\<lparr>savedCursor := v1\<rparr>) = getMarginEnd s"
  "getRows (s\<lparr>tabs := v2\<rparr>) = getRows s"
  "getCols (s\<lparr>tabs := v2\<rparr>) = getCols s"
  "getMarginBegin (s\<lparr>tabs := v2\<rparr>) = getMarginBegin s"
  "getMarginEnd (s\<lparr>tabs := v2\<rparr>) = getMarginEnd s"
  "getRows (s\<lparr>modes := v3\<rparr>) = getRows s"
  "getCols (s\<lparr>modes := v3\<rparr>) = getCols s"
  "getMarginBegin (s\<lparr>modes := v3\<rparr>) = getMarginBegin s"
  "getMarginEnd (s\<lparr>modes := v3\<rparr>) = getMarginEnd s"
  "getRows (s\<lparr>writeBuffer := v4\<rparr>) = getRows s"
  "getCols (s\<lparr>writeBuffer := v4\<rparr>) = getCols s"
  "getMarginBegin (s\<lparr>writeBuffer := v4\<rparr>) = getMarginBegin s"
  "getMarginEnd (s\<lparr>writeBuffer := v4\<rparr>) = getMarginEnd s"
  "getRows (s\<lparr>tty := v5\<rparr>) = getRows s"
  "getCols (s\<lparr>tty := v5\<rparr>) = getCols s"
  "getMarginBegin (s\<lparr>tty := v5\<rparr>) = getMarginBegin s"
  "getMarginEnd (s\<lparr>tty := v5\<rparr>) = getMarginEnd s"
  "getRows (s\<lparr>sent := v6\<rparr>) = getRows s"
  "getCols (s\<lparr>sent := v6\<rparr>) = getCols s"
  "getMarginBegin (s\<lparr>sent := v6\<rparr>) = getMarginBegin s"
  "getMarginEnd (s\<lparr>sent := v6\<rparr>) = getMarginEnd s"
  "getRows (s\<lparr>dumpWrites := v7\<rparr>) = getRows s"
  "getCols (s\<lparr>dumpWrites := v7\<rparr>) = getCols s"
  "getMarginBegin (s\<lparr>dumpWrites := v7\<rparr>) = getMarginBegin s"
  "getMarginEnd (s\<lparr>dumpWrites := v7\<rparr>) = getMarginEnd s"
  "getRows (s\<lparr>pressed := v8\<rparr>) = getRows s"
  "getCols (s\<lparr>pressed := v8\<rparr>) = getCols s"
  "getMarginBegin (s\<lparr>pressed := v8\<rparr>) = getMarginBegin s"
  "getMarginEnd (s\<lparr>pressed := v8\<rparr>) = getMarginEnd s"
  "getRows (s\<lparr>button := v9\<rparr>) = getRows s"
  "getCols (s\<lparr>button := v9\<rparr>) = getCols s"
  "getMarginBegin (s\<lparr>button := v9\<rparr>) = getMarginBegin s"
  "getMarginEnd (s\<lparr>button := v9\<rparr>) = getMarginEnd s"
  "getRows (s\<lparr>pointerPos := v10\<rparr>) = getRows s"
  "getCols (s\<lparr>pointerPos := v10\<rparr>) = getCols s"
  "getMarginBegin (s\<lparr>pointerPos := v10\<rparr>) = getMarginBegin s"
  "getMarginEnd (s\<lparr>pointerPos := v10\<rparr>) = getMarginEnd s"
  "getRows (s\<lparr>dispatch := v11\<rparr>) = getRows s"
  "getCols (s\<lparr>dispatch := v11\<rparr>) = getCols s"
  "getMarginBegin (s\<lparr>dispatch := v11\<rparr>) = getMarginBegin s"
  "getMarginEnd (s\<lparr>dispatch := v11\<rparr>) = getMarginEnd s"
  by (simp_all add: getRows_def getCols_def getMarginBegin_def getMarginEnd_def buffer_def)

lemma inside_update [simp]:
  "inside p (s\<lparr>cursor := v0\<rparr>) = inside p s"
  "inside p (s\<lparr>savedCursor := v1\<rparr>) = inside p s"
  "inside p (s\<lparr>tabs := v2\<rparr>) = inside p s"
  "inside p (s\<lparr>modes := v3\<rparr>) = inside p s"
  "inside p (s\<lparr>writeBuffer := v4\<rparr>) = inside p s"
  "inside p (s\<lparr>tty := v5\<rparr>) = inside p s"
  "inside p (s\<lparr>sent := v6\<rparr>) = inside p s"
  "inside p (s\<lparr>dumpWrites := v7\<rparr>) = inside p s"
  "inside p (s\<lparr>pressed := v8\<rparr>) = inside p s"
  "inside p (s\<lparr>button := v9\<rparr>) = inside p s"
  "inside p (s\<lparr>pointerPos := v10\<rparr>) = inside p s"
  "inside p (s\<lparr>dispatch := v11\<rparr>) = inside p s"
  "inside p (request c s) = inside p s"
  by (simp_all add: inside_def)

lemma Inv_update [simp]:
  "Inv (s\<lparr>modes := v3\<rparr>) = Inv s"
  "Inv (s\<lparr>writeBuffer := v4\<rparr>) = Inv s"
  "Inv (s\<lparr>tty := v5\<rparr>) = Inv s"
  "Inv (s\<lparr>sent := v6\<rparr>) = Inv s"
  "Inv (s\<lparr>dumpWrites := v7\<rparr>) = Inv s"
  "Inv (s\<lparr>pressed := v8\<rparr>) = Inv s"
  "Inv (s\<lparr>button := v9\<rparr>) = Inv s"
  "Inv (s\<lparr>pointerPos := v10\<rparr>) = Inv s"
  "Inv (s\<lparr>dispatch := v11\<rparr>) = Inv s"
  by (simp_all add: Inv_def)

lemma Inv_cursor_update:
  "Inv s \<Longrightarrow> inside (pos c) s \<Longrightarrow> Inv (s\<lparr>cursor := c\<rparr>)"
  by (simp add: Inv_def)

lemma Inv_savedCursor_update:
  "Inv s \<Longrightarrow> inside (pos c) s \<Longrightarrow> Inv (s\<lparr>savedCursor := c\<rparr>)"
  by (simp add: Inv_def)

lemma Inv_tabs_update:
  "Inv s \<Longrightarrow> length ts = length (tabs s) \<Longrightarrow> Inv (s\<lparr>tabs := ts\<rparr>)"
  by (simp add: Inv_def)

lemma Inv_inside_cursor:
  "Inv s \<Longrightarrow> uint (row (pos (cursor s))) < getRows s \<and> uint (col (pos (cursor s))) < getCols s"
  by (simp add: Inv_def inside_def)

lemma Inv_inside:
  "Inv s \<Longrightarrow> inside (pos (cursor s)) s \<and> inside (pos (savedCursor s)) s"
  by (simp add: Inv_def)

lemma Inv_geometry:
  "Inv s \<Longrightarrow> 0 < getRows s \<and> 0 < getCols s \<and> 0 \<le> getMarginBegin s
     \<and> getMarginBegin s < getMarginEnd s \<and> getMarginEnd s \<le> getRows s
     \<and> getRows s = uint (rows (buffer s)) \<and> getCols s = uint (cols (buffer s))
     \<and> length (tabs s) = unat (cols (buffer s))"
  by (auto simp add: Inv_defs)

lemma damageCursor_Inv:
  "Inv s \<Longrightarrow> damageCursor s = Some (request (DamageCell (pos (cursor s))) s)"
  by (simp add: damageCursor_def Inv_inside_cursor)

lemma clamp_bounds: "lo \<le> hi \<Longrightarrow> lo \<le> clamp v lo hi \<and> clamp v lo hi \<le> hi"
  by (simp add: clamp_def)

lemma u16_of_small: "0 \<le> v \<Longrightarrow> v < 65536 \<Longrightarrow> uint (word_of_int v :: u16) = v"
  by (simp add: uint_word_of_int)

lemma uint_u16_bound: "uint (w :: u16) < 65536"
  using uint_lt2p [of w] by simp

lemma clamp_u16:
  assumes "0 \<le> lo" and "lo \<le> hi" and "hi < uint (w :: u16)"
  shows "lo \<le> uint (word_of_int (clamp v lo hi) :: u16)
         \<and> uint (word_of_int (clamp v lo hi) :: u16) \<le> hi"
proof -
  from clamp_bounds [OF assms(2), of v]
  have b: "lo \<le> clamp v lo hi" "clamp v lo hi \<le> hi" by simp_all
  with assms uint_u16_bound [of w]
  have "uint (word_of_int (clamp v lo hi) :: u16) = clamp v lo hi"
    by (intro u16_of_small) linarith+
  with b show ?thesis by simp
qed

text \<open>Wherever \<^verbatim>\<open>moveCursor\<close> is asked to go, the cursor ends inside the buffer.\<close>

lemma moveCursor_kept: "Inv s \<Longrightarrow> kept (moveCursor p s)"
proof -
  assume inv: "Inv s"
  note g = Inv_geometry [OF inv]
  define r where "r = (if originMode (cursor s)
              then clamp (uint (row p)) (getMarginBegin s) (getMarginEnd s - 1)
              else clamp (uint (row p)) 0 (getRows s - 1))"
  define c where "c = clamp (uint (col p)) 0 (getCols s - 1)"
  have eq: "moveCursor p s =
              Some ((request (DamageCell (pos (cursor s))) s)
                      \<lparr>cursor := (cursor s)\<lparr>pos := \<lparr>row = word_of_int r, col = word_of_int c\<rparr>,
                                            wrapNext := False\<rparr>\<rparr>)"
    using inv by (simp add: moveCursor_def damageCursor_Inv Let_def r_def c_def)
  have cc: "0 \<le> uint (word_of_int c :: u16) \<and> uint (word_of_int c :: u16) \<le> getCols s - 1"
    unfolding c_def using g by (intro clamp_u16 [where w = "cols (buffer s)"]) simp_all
  have r0: "0 \<le> uint (word_of_int (clamp (uint (row p)) 0 (getRows s - 1)) :: u16)
           \<and> uint (word_of_int (clamp (uint (row p)) 0 (getRows s - 1)) :: u16) \<le> getRows s - 1"
    using g by (intro clamp_u16 [where w = "rows (buffer s)"]) simp_all
  have r1: "getMarginBegin s
              \<le> uint (word_of_int (clamp (uint (row p)) (getMarginBegin s) (getMarginEnd s - 1)) :: u16)
           \<and> uint (word_of_int (clamp (uint (row p)) (getMarginBegin s) (getMarginEnd s - 1)) :: u16)
              \<le> getMarginEnd s - 1"
    using g by (intro clamp_u16 [where w = "rows (buffer s)"]) simp_all
  from r0 r1 g have rr: "0 \<le> uint (word_of_int r :: u16) \<and> uint (word_of_int r :: u16) < getRows s"
    by (cases "originMode (cursor s)") (simp_all add: r_def)
  from rr cc have ins: "inside \<lparr>row = word_of_int r, col = word_of_int c\<rparr> s"
    by (simp add: inside_def)
  show ?thesis
    unfolding eq using inv ins by (simp add: Inv_cursor_update)
qed

text \<open>
  How a handler that keeps the invariant passes its state on: the simplifier
  steps over a bind whose first part is known to return.
\<close>

lemma kept_bind_the: "kept m \<Longrightarrow> Option.bind m f = f (the m)"
  by (cases m) simp_all

lemma kept_the: "kept m \<Longrightarrow> Inv (the m)"
  by (cases m) simp_all

lemmas kept_simps = kept_bind_the kept_the moveCursor_kept

lemma moveCursorOriginMode_kept: "Inv s \<Longrightarrow> kept (moveCursorOriginMode p s)"
  by (simp add: moveCursorOriginMode_def moveCursor_kept)

lemma damageCursor_kept: "Inv s \<Longrightarrow> kept (damageCursor s)"
  by (simp add: damageCursor_Inv)

lemma Inv_cursor_flag:
  "Inv s \<Longrightarrow> pos c = pos (cursor s) \<Longrightarrow> Inv (s\<lparr>cursor := c\<rparr>)"
  by (simp add: Inv_cursor_update Inv_inside)

text \<open>Inside the buffer the tab loops never read past \<^verbatim>\<open>_tabs\<close>.\<close>

lemma tabForward_returns:
  "c < cols' \<Longrightarrow> length tabs' = unat cols' \<Longrightarrow> tabForward tabs' cols' c count \<noteq> None"
proof (induction tabs' cols' c count rule: tabForward.induct)
  case (1 tabs' cols' c count)
  show ?case
  proof (cases "count = 0 \<or> c + 1 = cols'")
    case True
    then show ?thesis
      by (auto simp add: tabForward.simps [of tabs' cols' c count])
  next
    case False
    from "1.prems"(1) have "c + 1 \<le> cols'"
      by (rule inc_le)
    with False have lt: "c + 1 < cols'"
      by (simp add: less_le)
    then have "unat (c + 1) < length tabs'"
      using "1.prems"(2) by (simp add: word_less_nat_alt)
    with False lt "1.IH" "1.prems"(2) show ?thesis
      by (simp add: tabForward.simps [of tabs' cols' c count])
  qed
qed

lemma tabBackward_returns:
  "unat c < length tabs' \<Longrightarrow> tabBackward tabs' c count \<noteq> None"
proof (induction tabs' c count rule: tabBackward.induct)
  case (1 tabs' c count)
  show ?case
  proof (cases "count = 0 \<or> c = 0")
    case True
    then show ?thesis
      by (auto simp add: tabBackward.simps [of tabs' c count])
  next
    case False
    then have "unat (c - 1) < unat c"
      by (simp add: unat_pred_less)
    with "1.prems" have "unat (c - 1) < length tabs'"
      by simp
    with False "1.IH" show ?thesis
      by (simp add: tabBackward.simps [of tabs' c count])
  qed
qed

lemma tabCursor_kept: "Inv s \<Longrightarrow> kept (tabCursor dir count s)"
proof -
  assume inv: "Inv s"
  note g = Inv_geometry [OF inv]
  from Inv_inside_cursor [OF inv] g
  have lt: "col (pos (cursor s)) < cols (buffer s)"
    by (simp add: word_less_def)
  then have n: "unat (col (pos (cursor s))) < length (tabs s)"
    using g by (simp add: word_less_nat_alt)
  show ?thesis
  proof (cases dir)
    case FORWARD
    from tabForward_returns [OF lt, of "tabs s" count] g
    obtain c where "tabForward (tabs s) (cols (buffer s)) (col (pos (cursor s))) count = Some c"
      by auto
    with FORWARD inv show ?thesis
      by (simp add: tabCursor_def moveCursor_kept)
  next
    case BACKWARD
    from tabBackward_returns [OF n, of count]
    obtain c where "tabBackward (tabs s) (col (pos (cursor s))) count = Some c"
      by auto
    with BACKWARD inv show ?thesis
      by (simp add: tabCursor_def moveCursor_kept)
  qed
qed

lemma lineFeed_kept: "Inv s \<Longrightarrow> kept (lineFeed s)"
  by (simp add: lineFeed_def moveCursor_kept)

lemma Inv_col [simp]: "Inv s \<Longrightarrow> uint (col (pos (cursor s))) < getCols s"
  by (simp add: Inv_inside_cursor)

lemma Inv_row [simp]: "Inv s \<Longrightarrow> uint (row (pos (cursor s))) < getRows s"
  by (simp add: Inv_inside_cursor)

lemma Inv_inside_cur [simp]: "Inv s \<Longrightarrow> inside (pos (cursor s)) s"
  by (simp add: Inv_inside)

lemma Inv_inside_saved [simp]: "Inv s \<Longrightarrow> inside (pos (savedCursor s)) s"
  by (simp add: Inv_inside)

declare Inv_cursor_update [simp] Inv_savedCursor_update [simp]

lemma Inv_wrapNext [simp]: "Inv s \<Longrightarrow> Inv (s\<lparr>cursor := (cursor s)\<lparr>wrapNext := v\<rparr>\<rparr>)"
  by (simp add: Inv_cursor_flag)

lemma Inv_cs [simp]: "Inv s \<Longrightarrow> Inv (s\<lparr>cursor := (cursor s)\<lparr>cs := v\<rparr>\<rparr>)"
  by (simp add: Inv_cursor_flag)

lemma Inv_g0 [simp]: "Inv s \<Longrightarrow> Inv (s\<lparr>cursor := (cursor s)\<lparr>g0 := v\<rparr>\<rparr>)"
  by (simp add: Inv_cursor_flag)

lemma Inv_g1 [simp]: "Inv s \<Longrightarrow> Inv (s\<lparr>cursor := (cursor s)\<lparr>g1 := v\<rparr>\<rparr>)"
  by (simp add: Inv_cursor_flag)

lemma Inv_style [simp]: "Inv s \<Longrightarrow> Inv (s\<lparr>cursor := (cursor s)\<lparr>style := v\<rparr>\<rparr>)"
  by (simp add: Inv_cursor_flag)

lemma Inv_originMode [simp]:
  "Inv s \<Longrightarrow> Inv (s\<lparr>cursor := (cursor s)\<lparr>originMode := v\<rparr>\<rparr>)"
  by (simp add: Inv_cursor_flag)

lemma machineNormal_kept: "Inv s \<Longrightarrow> kept (machineNormal sq s)"
  by (simp add: machineNormal_def Let_def kept_simps)

lemma machineControl_kept: "Inv s \<Longrightarrow> kept (machineControl c s)"
  by (simp add: machineControl_def kept_simps tabCursor_kept lineFeed_kept)

lemma Terminal_resetTabs_length [simp]: "length (Terminal_resetTabs ts) = length ts"
  by (simp add: Terminal_resetTabs_map)

lemma inside_Pos0: "Inv s \<Longrightarrow> inside Pos0 s"
  using Inv_geometry [of s] by (simp add: inside_def Pos0_def)

lemma resetAll_Inv: "Inv s \<Longrightarrow> Inv (resetAll s)"
  by (simp add: resetAll_def Inv_tabs_update inside_Pos0 Cursor_init_def)

lemma Inv_restore [simp]: "Inv s \<Longrightarrow> Inv (s\<lparr>cursor := savedCursor s\<rparr>)"
  by (simp add: Inv_cursor_update Inv_inside)

lemma Inv_tab_index [simp]: "Inv s \<Longrightarrow> unat (col (pos (cursor s))) < length (tabs s)"
proof -
  assume inv: "Inv s"
  from Inv_inside_cursor [OF inv] Inv_geometry [OF inv]
  have "col (pos (cursor s)) < cols (buffer s)"
    by (simp add: word_less_def)
  with Inv_geometry [OF inv] show ?thesis
    by (simp add: word_less_nat_alt)
qed

lemma Inv_tabs_set [simp]: "Inv s \<Longrightarrow> Inv (s\<lparr>tabs := (tabs s)[n := v]\<rparr>)"
  by (simp add: Inv_tabs_update)

lemma Inv_save [simp]: "Inv s \<Longrightarrow> Inv (s\<lparr>savedCursor := cursor s\<rparr>)"
  by (simp add: Inv_savedCursor_update Inv_inside)

lemma machineEscape_kept: "Inv s \<Longrightarrow> kept (machineEscape c s)"
  by (simp add: machineEscape_def kept_simps lineFeed_kept resetAll_Inv damageCursor_Inv)

lemma Inv_setTo [simp]: "Inv (setTo m v s) = Inv s"
  by (simp add: setTo_def)

lemma Inv_useAlt: "Inv s \<Longrightarrow> Inv (s\<lparr>useAlt := v\<rparr>)"
  by (cases "useAlt s"; cases v; auto simp add: Inv_defs)

lemma saveOrRestore_kept: "Inv s \<Longrightarrow> kept (saveOrRestore set' s)"
  by (simp add: saveOrRestore_def kept_simps damageCursor_Inv)

lemma processMode_kept: "Inv s \<Longrightarrow> kept (processMode priv set' a s)"
  by (simp add: processMode_def Let_def kept_simps moveCursorOriginMode_kept
      saveOrRestore_kept Inv_useAlt)

lemma processModes_kept: "Inv s \<Longrightarrow> kept (processModes priv set' args s)"
proof (induction args arbitrary: s)
  case Nil
  then show ?case by simp
next
  case (Cons a args)
  from processMode_kept [OF Cons.prems, of priv set' a]
  obtain s1 where "processMode priv set' a s = Some s1" and "Inv s1"
    by (auto dest: keptE)
  with Cons.IH [of s1] show ?case by simp
qed

lemma Inv_resetMargins: "Inv s \<Longrightarrow> Inv (on_buffer resetMargins s)"
  by (auto simp add: on_buffer_def resetMargins_def Inv_defs)

lemma Inv_setMargins:
  assumes "Inv s" and "0 \<le> b" and "b < e" and "e \<le> getRows s"
  shows "Inv (on_buffer (setMargins b e) s)"
proof -
  note g = Inv_geometry [OF assms(1)]
  let ?rows = "uint (rows (buffer s))"
  from assms g have cb: "clamp b 0 ?rows = b" and ce: "clamp e 0 ?rows = e"
    by (simp_all add: clamp_def)
  from assms g uint_u16_bound [of "rows (buffer s)"]
  have ub: "uint (word_of_int b :: u16) = b" and ue: "uint (word_of_int e :: u16) = e"
    by (simp_all add: u16_of_small)
  have margins: "geometry_ok (setMargins b e (buffer s))
     \<and> rows (setMargins b e (buffer s)) = rows (buffer s)
     \<and> cols (setMargins b e (buffer s)) = cols (buffer s)"
    using assms g cb ce ub ue by (simp add: setMargins_def geometry_ok_def)
  with assms(1) show ?thesis
    by (auto simp add: on_buffer_def Inv_def inside_def getRows_def getCols_def buffer_def)
qed

lemma getRows_margins [simp]:
  "getRows (on_buffer resetMargins s) = getRows s"
  "getRows (on_buffer (setMargins b e) s) = getRows s"
  by (simp_all add: on_buffer_def resetMargins_def setMargins_def getRows_def buffer_def)

lemma setScrollRegion_kept: "Inv s \<Longrightarrow> kept (setScrollRegion args s)"
proof -
  assume inv: "Inv s"
  note g = Inv_geometry [OF inv]
  define top where "top = clamp (nthArgNonZero args 0 1 - 1) 0 (getRows s - 1)"
  define bottom where
    "bottom = clamp (nthArgNonZero args 1 (uint (row (pos (cursor s))) + 1) - 1) 0 (getRows s - 1)"
  from g have t: "0 \<le> top \<and> top \<le> getRows s - 1"
    unfolding top_def by (intro clamp_bounds) simp
  from g have b: "0 \<le> bottom \<and> bottom \<le> getRows s - 1"
    unfolding bottom_def by (intro clamp_bounds) simp
  have "top < bottom \<Longrightarrow> Inv (on_buffer (setMargins top (bottom + 1)) s)"
    using inv t b by (intro Inv_setMargins) simp_all
  with inv show ?thesis
    unfolding setScrollRegion_def Let_def top_def [symmetric] bottom_def [symmetric]
    by (simp add: moveCursorOriginMode_kept Inv_resetMargins)
qed

lemma Inv_Terminal_write [simp]: "Inv (Terminal_write data s) = Inv s"
  by (simp add: Terminal_write_def split: prod.splits)

lemma Inv_deviceStatus [simp]: "Inv (deviceStatus s) = Inv s"
  by (simp add: deviceStatus_def)

lemma Inv_cursorReport [simp]: "Inv (cursorReport s) = Inv s"
  by (simp add: cursorReport_def Let_def)

lemma Inv_tabs_clear [simp]: "Inv s \<Longrightarrow> Inv (s\<lparr>tabs := map f (tabs s)\<rparr>)"
  by (simp add: Inv_tabs_update)

lemma Inv_save_pos [simp]:
  "Inv s \<Longrightarrow> Inv (s\<lparr>savedCursor := (savedCursor s)\<lparr>pos := pos (cursor s)\<rparr>\<rparr>)"
  by simp

lemma machineCsi_kept: "Inv s \<Longrightarrow> kept (machineCsi priv args mode s)"
  by (simp add: machineCsi_def Let_def kept_simps moveCursorOriginMode_kept tabCursor_kept
      processModes_kept setScrollRegion_kept)

lemma Inv_fold_request [simp]: "Inv (fold (\<lambda>c. request (f c)) xs s) = Inv s"
  by (induction xs arbitrary: s) simp_all

lemma Inv_fold_fold_request [simp]:
  "Inv (fold (\<lambda>r. fold (\<lambda>c. request (f r c)) xs) ys s) = Inv s"
  by (induction ys arbitrary: s) simp_all

lemma machineSpecial_kept: "Inv s \<Longrightarrow> kept (machineSpecial special code s)"
  by (simp add: machineSpecial_def)

text \<open>
  No event of the VT machine makes a handler stop on a failed assertion, and
  each leaves the invariant in place.
\<close>

lemma machine_kept: "Inv s \<Longrightarrow> kept (machine ev s)"
  by (cases ev)
     (simp_all add: machineNormal_kept machineControl_kept machineEscape_kept
        machineCsi_kept machineSpecial_kept)


lemma keyPress_Inv [simp]: "Inv (keyPress str s) = Inv s"
  by (simp add: keyPress_def split: option.splits)

lemma paste_Inv [simp]: "Inv (paste data s) = Inv s"
  by (simp add: paste_def Let_def)

text \<open>
  Pty input alone never makes \<^verbatim>\<open>read\<close> stop on a failed assertion: from a
  state that satisfies the invariant, every list of events of the VT machine is
  processed to the end.
\<close>

lemma processRead_machine_returns:
  "Inv s \<Longrightarrow> \<exists>s'. processRead (map Machine evs) s = Some s' \<and> Inv s'"
proof (induction evs arbitrary: s)
  case Nil
  then show ?case by simp
next
  case (Cons ev evs)
  from machine_kept [OF Cons.prems, of ev]
  obtain s1 where m: "machine ev s = Some s1" and i1: "Inv s1"
    by (auto dest: keptE)
  then have "processItem (Machine ev) s = Some s1"
    by (simp add: processItem_def)
  with Cons.IH [OF i1] show ?case
    by simp
qed

lemma read_machine_returns:
  assumes "Inv s" and "\<not> dispatch s"
  shows "\<exists>s'. read (map Machine evs) s = Some s' \<and> Inv s'"
proof -
  from assms(1) have "Inv (s\<lparr>dispatch := True\<rparr>)"
    by simp
  from processRead_machine_returns [OF this, of evs] assms(2) show ?thesis
    by (auto simp add: read_def)
qed


lemma dispatch_Terminal_write [simp]: "dispatch (Terminal_write data s) = dispatch s"
  by (simp add: Terminal_write_def split: prod.splits)

lemma dispatch_keyPress [simp]: "dispatch (keyPress str s) = dispatch s"
  by (simp add: keyPress_def split: option.splits)

lemma dispatch_paste [simp]: "dispatch (paste data s) = dispatch s"
  by (simp add: paste_def Let_def)










text \<open>
  The conditions take no sequence of operations away that returns: when the
  operations return, their callers and the buffers have done their part.
\<close>

lemma processRead_items_ok: "processRead items s = Some s' \<Longrightarrow> items_ok items s"
proof (induction items arbitrary: s)
  case Nil
  then show ?case by simp
next
  case (Cons it items)
  from Cons.prems obtain s1 where p: "processItem it s = Some s1"
    and r: "processRead items s1 = Some s'"
    by (auto simp add: Option.bind_eq_Some_conv)
  from p have "item_ok it s"
    by (cases it)
       (auto simp add: processItem_def resize_def resizable_def Let_def Option.bind_eq_Some_conv
          split: if_splits)
  with p Cons.IH [OF r] show ?case
    by simp
qed

lemma perform_op_ok: "perform op s = Some s' \<Longrightarrow> op_ok op s"
proof (cases op)
  case (Resize rows' cols' priAdj altAdj)
  assume "perform op s = Some s'"
  with Resize show ?thesis
    by (auto simp add: resize_def resizable_def Let_def split: if_splits)
next
  case (Read items)
  assume "perform op s = Some s'"
  with Read show ?thesis
    by (auto simp add: read_def Option.bind_eq_Some_conv dest: processRead_items_ok
        split: if_splits)
next
  case Flush
  assume "perform op s = Some s'"
  with Flush show ?thesis
    by (auto simp add: flush_def needsFlush_def split: if_splits)
qed (auto simp add: buttonPress_def buttonMotion_def buttonRelease_def split: if_splits)

lemma performs_ops_ok: "performs ops s = Some s' \<Longrightarrow> ops_ok ops s"
proof (induction ops arbitrary: s)
  case Nil
  then show ?case by simp
next
  case (Cons op ops)
  from Cons.prems obtain s1 where p: "perform op s = Some s1" and r: "performs ops s1 = Some s'"
    by (auto simp add: Option.bind_eq_Some_conv)
  from perform_op_ok [OF p] p Cons.IH [OF r] show ?case
    by simp
qed


text \<open>
  When \<^verbatim>\<open>Buffer::resize\<close> leaves the row of the saved cursor where it was, in row 9
  of the five rows that remain, \<^verbatim>\<open>resize\<close> stops at its assertion on the saved
  cursor.
\<close>

lemma resize_stops_on_saved_cursor:
  "performs [Read [Machine (Csi False [10, 20] CHR ''H''), Machine (Escape CHR ''7'')],
             Resize 5 10 0 0] (Terminal_init 24 80 []) = None"
  by code_simp




end
